theory Spec2Isabelle
  imports Main "HOL-Library.AList"
begin

section \<open>Formula parser (utils.tsx, parseFormula)\<close>

text \<open>
  JavaScript strings are modelled as \<open>string\<close>; every character class of the source's
  regular expressions is ASCII, so a character outside ASCII matches none of them.
  JavaScript numbers that hold counts are modelled as \<open>int\<close>: the source only ever adds and
  multiplies integers, which a double represents exactly below \<open>2^53\<close>.
\<close>

definition isUpper :: "char \<Rightarrow> bool" where
  "isUpper c = (c \<in> set ''ABCDEFGHIJKLMNOPQRSTUVWXYZ'')"

definition isLower :: "char \<Rightarrow> bool" where
  "isLower c = (c \<in> set ''abcdefghijklmnopqrstuvwxyz'')"

definition isDigit :: "char \<Rightarrow> bool" where
  "isDigit c = (c \<in> set ''0123456789'')"

text \<open>
  One value per successful \<open>tokenRegex.exec\<close>: \<open>Element m1 m2\<close> is a match of the first
  alternative with groups 1 and 2, \<open>OpenParen\<close> a match of group 3, \<open>CloseParen m5\<close> a match
  of groups 4 and 5.
\<close>

datatype token = Element string string | OpenParen | CloseParen string

text \<open>
  The \<open>while ((match = tokenRegex.exec(clean)) !== null)\<close> scan of
  \<open>/([A-Z][a-z]*|e)(\d*)|(\()|(\))(\d*)/g\<close>: the next match starts at the first character
  that is an upper-case letter, \<open>e\<close>, \<open>(\<close> or \<open>)\<close>; the quantifiers are greedy and never
  need to give anything back; any other character is stepped over.
\<close>

function tokenize :: "string \<Rightarrow> token list" where
  "tokenize [] = []"
| "tokenize (c # cs) =
     (if isUpper c then
        Element (c # takeWhile isLower cs) (takeWhile isDigit (dropWhile isLower cs))
          # tokenize (dropWhile isDigit (dropWhile isLower cs))
      else if c = CHR ''e'' then
        Element ''e'' (takeWhile isDigit cs) # tokenize (dropWhile isDigit cs)
      else if c = CHR ''('' then OpenParen # tokenize cs
      else if c = CHR '')'' then
        CloseParen (takeWhile isDigit cs) # tokenize (dropWhile isDigit cs)
      else tokenize cs)"
  by pat_completeness auto
termination
proof (relation "measure length")
  fix c :: char and cs :: string
  have "length (dropWhile isDigit (dropWhile isLower cs)) \<le> length cs"
    by (meson length_dropWhile_le order_trans)
  then show "(dropWhile isDigit (dropWhile isLower cs), c # cs) \<in> measure length"
    by simp
  show "(dropWhile isDigit cs, c # cs) \<in> measure length"
    by (simp add: length_dropWhile_le le_imp_less_Suc)
  show "(dropWhile isDigit cs, c # cs) \<in> measure length"
    by (simp add: length_dropWhile_le le_imp_less_Suc)
qed auto

text \<open>The value of one decimal digit, and \<open>parseInt(ds, 10)\<close> of a string of digits.\<close>

definition digitVal :: "char \<Rightarrow> int" where
  "digitVal c = int (of_char c) - 48"

definition digitsValue :: "string \<Rightarrow> int" where
  "digitsValue ds = foldl (\<lambda>n c. 10 * n + digitVal c) 0 ds"

text \<open>\<open>parseInt(m || '1', 10)\<close> for a regex group \<open>(\d*)\<close>: the empty group is falsy.\<close>

definition countOf :: "string \<Rightarrow> int" where
  "countOf m = digitsValue (if m = [] then ''1'' else m)"

text \<open>
  A \<open>Record<string, number>\<close> is an association list in insertion order, which is the order
  \<open>Object.entries\<close> and \<open>Object.keys\<close> enumerate (no element symbol is an integer-like key,
  and none is a property of \<open>Object.prototype\<close>: all of those start with a lower-case
  letter or an underscore and are longer than \<open>e\<close>). \<open>AList.update\<close> overwrites an
  existing key in place and appends a new one, as property assignment does.
\<close>

type_synonym frame = "(string \<times> int) list"

text \<open>\<open>current[el] || 0\<close>\<close>

definition orZero :: "int option \<Rightarrow> int" where
  "orZero v = (case v of None \<Rightarrow> 0 | Some n \<Rightarrow> n)"

text \<open>\<open>current[el] = (current[el] || 0) + n\<close>\<close>

definition addTo :: "frame \<Rightarrow> string \<Rightarrow> int \<Rightarrow> frame" where
  "addTo current el n = AList.update el (orZero (map_of current el) + n) current"

text \<open>The \<open>for (const [el, cnt] of Object.entries(popped))\<close> loop.\<close>

definition mergeInto :: "frame \<Rightarrow> frame \<Rightarrow> int \<Rightarrow> frame" where
  "mergeInto current popped multiplier =
     foldl (\<lambda>cur (el, cnt). addTo cur el (cnt * multiplier)) current popped"

datatype error = TypeError

text \<open>
  One iteration of the loop body. The stack is a list whose head is the top
  (\<open>stack[stack.length - 1]\<close>) and whose last element is the base frame (\<open>stack[0]\<close>).
  With an empty stack \<open>stack[stack.length - 1]\<close> is \<open>undefined\<close>, and reading or writing a
  property of \<open>undefined\<close> throws a \<open>TypeError\<close>; \<open>stack.pop()\<close> of an empty stack is
  \<open>undefined\<close>, which \<open>if (popped)\<close> skips, while every object, the empty one too, is truthy.
\<close>

fun step :: "frame list \<Rightarrow> token \<Rightarrow> error + frame list" where
  "step stack (Element el m2) =
     (case stack of
        [] \<Rightarrow> Inl TypeError
      | current # rest \<Rightarrow> Inr (addTo current el (countOf m2) # rest))"
| "step stack OpenParen = Inr ([] # stack)"
| "step stack (CloseParen m5) =
     (case stack of
        [] \<Rightarrow> Inr []
      | popped # rest \<Rightarrow>
          (case rest of
             [] \<Rightarrow> (if popped = [] then Inr [] else Inl TypeError)
           | current # below \<Rightarrow> Inr (mergeInto current popped (countOf m5) # below)))"

fun run :: "frame list \<Rightarrow> token list \<Rightarrow> error + frame list" where
  "run stack [] = Inr stack"
| "run stack (t # ts) = (case step stack t of Inl e \<Rightarrow> Inl e | Inr stack' \<Rightarrow> run stack' ts)"

text \<open>\<open>formula.split('^')[0]\<close> and \<open>.replace(/\./g, '')\<close>\<close>

definition cleanFormula :: "string \<Rightarrow> string" where
  "cleanFormula formula = filter (\<lambda>c. c \<noteq> CHR ''.'') (takeWhile (\<lambda>c. c \<noteq> CHR ''^'') formula)"

text \<open>
  The result is \<open>Inl TypeError\<close> when the loop throws, \<open>Inr None\<close> when \<open>stack[0]\<close> is
  \<open>undefined\<close> (the stack ended empty), and \<open>Inr (Some base)\<close> otherwise.
\<close>

definition parseFormula :: "string \<Rightarrow> error + frame option" where
  "parseFormula formula =
     (case run [[]] (tokenize (cleanFormula formula)) of
        Inl e \<Rightarrow> Inl e
      | Inr stack \<Rightarrow> Inr (if stack = [] then None else Some (last stack)))"


section \<open>Charge extractor (EquationBalancer.tsx, getCharge)\<close>

text \<open>\<open>s.split(sep)\<close> for a one-character separator: never empty, \<open>[s]\<close> without a separator.\<close>

fun splitOn :: "char \<Rightarrow> string \<Rightarrow> string list" where
  "splitOn sep [] = [[]]"
| "splitOn sep (c # cs) =
     (if c = sep then [] # splitOn sep cs
      else (case splitOn sep cs of [] \<Rightarrow> [[c]] | part # parts \<Rightarrow> (c # part) # parts))"

text \<open>
  \<open>chargePart.match(/(\d*)([\+\-])/)\<close>: the pattern is not anchored, so the match is the
  leftmost position at which a maximal run of digits is followed by a sign; the result is
  the pair of groups 1 and 2, or \<open>None\<close> for \<open>null\<close>.
\<close>

fun chargeMatch :: "string \<Rightarrow> (string \<times> char) option" where
  "chargeMatch [] = None"
| "chargeMatch (c # cs) =
     (case dropWhile isDigit (c # cs) of
        [] \<Rightarrow> chargeMatch cs
      | s # rest \<Rightarrow>
          if s = CHR ''+'' \<or> s = CHR ''-'' then Some (takeWhile isDigit (c # cs), s)
          else chargeMatch cs)"

definition getCharge :: "string \<Rightarrow> int" where
  "getCharge formula =
     (let parts = splitOn (CHR ''^'') formula in
      if length parts < 2 then (if formula = ''e'' \<or> formula = ''e-'' then - 1 else 0)
      else
        (case chargeMatch (parts ! 1) of
           None \<Rightarrow> 0
         | Some (m1, m2) \<Rightarrow>
             (let num = (if m1 \<noteq> [] then digitsValue m1 else 1);
                  sign = (if m2 = CHR ''+'' then 1 else - 1)
              in num * sign)))"

section \<open>Numbers and their text\<close>

text \<open>
  A coefficient is the result of \<open>parseInt\<close> on text the component holds, so it can be
  \<open>NaN\<close>. \<open>parseInt(s, 10)\<close> skips leading white space (the ASCII white space is
  modelled), reads an optional sign and the longest run of decimal digits, and is \<open>NaN\<close>
  when that run is empty.
\<close>

datatype jsnum = NaN | Num int

definition isSpace :: "char \<Rightarrow> bool" where
  "isSpace c = (c \<in> set [CHR 0x09, CHR 0x0A, CHR 0x0B, CHR 0x0C, CHR 0x0D, CHR 0x20])"

definition parseInt10 :: "string \<Rightarrow> jsnum" where
  "parseInt10 s =
     (let t = dropWhile isSpace s;
          sign = (case t of c # r \<Rightarrow> if c = CHR ''-'' then - 1 else 1 | [] \<Rightarrow> 1);
          u = (case t of c # r \<Rightarrow> if c = CHR ''-'' \<or> c = CHR ''+'' then r else t | [] \<Rightarrow> t);
          z = takeWhile isDigit u
      in if z = [] then NaN else Num (sign * digitsValue z))"

text \<open>\<open>a * b\<close>, \<open>a + b\<close>, \<open>a !== b\<close> and \<open>a || 0\<close> on numbers; \<open>NaN\<close> and \<open>undefined\<close> are falsy.\<close>

fun jsMul :: "jsnum \<Rightarrow> jsnum \<Rightarrow> jsnum" where
  "jsMul (Num a) (Num b) = Num (a * b)"
| "jsMul a b = NaN"

fun jsAdd :: "jsnum \<Rightarrow> jsnum \<Rightarrow> jsnum" where
  "jsAdd (Num a) (Num b) = Num (a + b)"
| "jsAdd a b = NaN"

fun jsNeq :: "jsnum \<Rightarrow> jsnum \<Rightarrow> bool" where
  "jsNeq (Num a) (Num b) = (a \<noteq> b)"
| "jsNeq a b = True"

fun jsOrZero :: "jsnum option \<Rightarrow> int" where
  "jsOrZero None = 0"
| "jsOrZero (Some NaN) = 0"
| "jsOrZero (Some (Num n)) = n"

text \<open>\<open>a % b\<close> on integers with \<open>b\<close> not zero: the sign follows the dividend.\<close>

definition jsRem :: "int \<Rightarrow> int \<Rightarrow> int" where
  "jsRem a b = sgn a * (\<bar>a\<bar> mod \<bar>b\<bar>)"

text \<open>The decimal text of an integer, as string conversion in a template literal gives it.\<close>

fun showNat :: "nat \<Rightarrow> string" where
  "showNat n =
     (if n < 10 then [''0123456789'' ! n]
      else showNat (n div 10) @ [''0123456789'' ! (n mod 10)])"

declare showNat.simps [simp del]

definition showInt :: "int \<Rightarrow> string" where
  "showInt i = (if i < 0 then CHR ''-'' # showNat (nat (- i)) else showNat (nat i))"

text \<open>\<open>xs.join(sep)\<close>\<close>

fun joinWith :: "string \<Rightarrow> string list \<Rightarrow> string" where
  "joinWith sep [] = []"
| "joinWith sep [x] = x"
| "joinWith sep (x # y # ys) = x @ sep @ joinWith sep (y # ys)"

section \<open>The equation balancer component (EquationBalancer.tsx)\<close>

datatype Language = ZH | EN

datatype EquationTopic =
  METALS | ACIDS_BASES | FOSSIL_FUELS | EQUILIBRIUM | REDOX_HALF | REDOX_FULL

datatype Difficulty = easy | medium | hard

record EquationComponent =
  formula :: string
  name :: "string option"
  coefficient :: int

record ChemicalEquation =
  reactants :: "EquationComponent list"
  products :: "EquationComponent list"
  difficulty :: Difficulty

datatype Feedback = FeedbackNone | FeedbackCorrect | FeedbackIncorrect

text \<open>
  The state the handlers read and write: the \<open>useState\<close> cells of the component and its
  \<open>language\<close> property. \<open>userCoefficients\<close> is only ever read by key, so it is a map.
\<close>

record state =
  language :: Language
  selectedTopic :: "EquationTopic option"
  equations :: "ChemicalEquation list"
  currentIndex :: nat
  userCoefficients :: "string \<rightharpoonup> string"
  score :: int
  feedback :: Feedback
  hintMessage :: string
  showAnswer :: bool

subsection \<open>Editing a coefficient\<close>




subsection \<open>Atom and charge totals (checkAnswer, lines 110 to 159)\<close>

text \<open>\<open>parseInt(userCoefficients[`${side}-${idx}`] || '1', 10)\<close>; the empty string is falsy.\<close>

definition userCoefficient :: "(string \<rightharpoonup> string) \<Rightarrow> string \<Rightarrow> nat \<Rightarrow> jsnum" where
  "userCoefficient uc side idx =
     parseInt10
       (case uc (side @ ''-'' @ showNat idx) of
          None \<Rightarrow> ''1''
        | Some v \<Rightarrow> if v = [] then ''1'' else v)"

type_synonym counts = "(string \<times> jsnum) list"

text \<open>
  The inner \<open>for (const [el, count] of Object.entries(atoms))\<close> loop with its
  \<open>if (el === 'e') continue\<close>.
\<close>

definition addAtoms :: "counts \<Rightarrow> frame \<Rightarrow> jsnum \<Rightarrow> counts" where
  "addAtoms cnts atoms coeff =
     foldl (\<lambda>acc (el, n).
              if el = ''e'' then acc
              else AList.update el (jsAdd (Num (jsOrZero (map_of acc el))) (jsMul (Num n) coeff)) acc)
       cnts atoms"

text \<open>
  The \<open>forEach((r, idx) => ...)\<close> over one side, threading the side's counts and total
  charge. A \<open>parseFormula\<close> that throws ends the handler, and so does \<open>Object.entries\<close> of
  the \<open>undefined\<close> it can return.
\<close>

fun sumSide ::
  "(string \<rightharpoonup> string) \<Rightarrow> string \<Rightarrow> nat \<Rightarrow> EquationComponent list \<Rightarrow> counts \<times> jsnum
     \<Rightarrow> error + counts \<times> jsnum" where
  "sumSide uc side idx [] acc = Inr acc"
| "sumSide uc side idx (r # rs) (cnts, charge) =
     (let coeff = userCoefficient uc side idx in
      case parseFormula (formula r) of
        Inl e \<Rightarrow> Inl e
      | Inr None \<Rightarrow> Inl TypeError
      | Inr (Some atoms) \<Rightarrow>
          sumSide uc side (Suc idx) rs
            (addAtoms cnts atoms coeff, jsAdd charge (jsMul coeff (Num (getCharge (formula r))))))"

text \<open>\<open>Array.from(new Set(xs))\<close>: the first occurrence of each value, in order.\<close>

fun uniq :: "'a list \<Rightarrow> 'a list \<Rightarrow> 'a list" where
  "uniq seen [] = []"
| "uniq seen (x # xs) = (if x \<in> set seen then uniq seen xs else x # uniq (x # seen) xs)"

record detail =
  element :: string
  left :: int
  right :: int

definition findUnbalanced :: "counts \<Rightarrow> counts \<Rightarrow> detail list" where
  "findUnbalanced rc pc =
     (let allElements = uniq [] (map fst rc @ map fst pc) in
      concat (map (\<lambda>el.
          let l = jsOrZero (map_of rc el); r = jsOrZero (map_of pc el)
          in if l \<noteq> r then [\<lparr>element = el, left = l, right = r\<rparr>] else [])
        allElements))"

text \<open>The values of the handler's local variables when line 159 is reached.\<close>

record balance =
  rCounts :: counts
  pCounts :: counts
  totalChargeL :: jsnum
  totalChargeR :: jsnum
  unbalancedDetails :: "detail list"

definition evaluate :: "(string \<rightharpoonup> string) \<Rightarrow> ChemicalEquation \<Rightarrow> error + balance" where
  "evaluate uc eq =
     (case sumSide uc ''r'' 0 (reactants eq) ([], Num 0) of
        Inl e \<Rightarrow> Inl e
      | Inr (rc, cl) \<Rightarrow>
          (case sumSide uc ''p'' 0 (products eq) ([], Num 0) of
             Inl e \<Rightarrow> Inl e
           | Inr (pc, cr) \<Rightarrow>
               Inr \<lparr>rCounts = rc, pCounts = pc, totalChargeL = cl, totalChargeR = cr,
                    unbalancedDetails = findUnbalanced rc pc\<rparr>))"

subsection \<open>Messages\<close>

text \<open>
  The message texts are the source's template literals; a character outside ASCII is
  written as its UTF-8 bytes. The handler only concatenates these texts.
\<close>

text \<open>\<open>${c > 0 ? '+' + c : c}\<close>\<close>

definition signedText :: "jsnum \<Rightarrow> string" where
  "signedText c =
     (case c of NaN \<Rightarrow> ''NaN'' | Num n \<Rightarrow> if 0 < n then ''+'' @ showInt n else showInt n)"

definition chargeMsg :: "Language \<Rightarrow> jsnum \<Rightarrow> jsnum \<Rightarrow> string" where
  "chargeMsg lang chargeL chargeR =
     (if lang = ZH then
            [CHR 0xE9, CHR 0x9B, CHR 0xBB, CHR 0xE8, CHR 0x8D, CHR 0xB7, CHR 0xE6, CHR 0x9C, CHR 0xAA,
              CHR 0xE5, CHR 0xB9, CHR 0xB3, CHR 0xE8, CHR 0xA1, CHR 0xA1] @ '' ('' @ [CHR 0xE5, CHR 0xB7,
              CHR 0xA6] @ '': '' @ signedText chargeL @ '', '' @ [CHR 0xE5, CHR 0x8F, CHR 0xB3] @ '': '' @
              signedText chargeR @ '')''
      else
            ''Charge unbalanced (Left: '' @ signedText chargeL @ '', Right: '' @ signedText chargeR @
              '')'')"

definition guideHint :: "EquationTopic option \<Rightarrow> Language \<Rightarrow> string" where
  "guideHint topic lang =
     (if topic = Some REDOX_HALF then
        (if lang = ZH then
            [CHR 0x0A, CHR 0x0A, CHR 0xF0, CHR 0x9F, CHR 0x92, CHR 0xA1] @ '' '' @ [CHR 0xE6, CHR 0x8F,
              CHR 0x90, CHR 0xE7, CHR 0xA4, CHR 0xBA, CHR 0xEF, CHR 0xBC, CHR 0x9A, CHR 0xE6, CHR 0xA0,
              CHR 0xB9, CHR 0xE6, CHR 0x93, CHR 0x9A, CHR 0xE6, CHR 0xAD, CHR 0xA5, CHR 0xE9, CHR 0xA9,
              CHR 0x9F] @ '' (b)'' @ [CHR 0xEF, CHR 0xBC, CHR 0x8C, CHR 0xE5, CHR 0x8E, CHR 0x9F, CHR 0xE5,
              CHR 0xAD, CHR 0x90, CHR 0xE5, CHR 0xB9, CHR 0xB3, CHR 0xE8, CHR 0xA1, CHR 0xA1, CHR 0xE5,
              CHR 0xBE, CHR 0x8C, CHR 0xEF, CHR 0xBC, CHR 0x8C, CHR 0xE8, CHR 0xAB, CHR 0x8B, CHR 0xE8,
              CHR 0xAA, CHR 0xBF, CHR 0xE6, CHR 0x95, CHR 0xB4, CHR 0xE9, CHR 0x9B, CHR 0xBB, CHR 0xE5,
              CHR 0xAD, CHR 0x90] @ '' (e'' @ [CHR 0xE2, CHR 0x81, CHR 0xBB] @ '') '' @ [CHR 0xE7, CHR 0x9A,
              CHR 0x84, CHR 0xE6, CHR 0x95, CHR 0xB8, CHR 0xE9, CHR 0x87, CHR 0x8F, CHR 0xE4, CHR 0xBE,
              CHR 0x86, CHR 0xE5, CHR 0xB9, CHR 0xB3, CHR 0xE8, CHR 0xA1, CHR 0xA1, CHR 0xE9, CHR 0x9B,
              CHR 0xBB, CHR 0xE8, CHR 0x8D, CHR 0xB7, CHR 0xE3, CHR 0x80, CHR 0x82]
         else
            [CHR 0x0A, CHR 0x0A, CHR 0xF0, CHR 0x9F, CHR 0x92, CHR 0xA1] @
              '' Hint: According to Step (b), after atoms are balanced, adjust electrons (e'' @ [CHR 0xE2,
              CHR 0x81, CHR 0xBB] @ '') to balance the charge.'')
      else if topic = Some REDOX_FULL then
        (if lang = ZH then
            [CHR 0x0A, CHR 0x0A, CHR 0xF0, CHR 0x9F, CHR 0x92, CHR 0xA1] @ '' '' @ [CHR 0xE6, CHR 0x8F,
              CHR 0x90, CHR 0xE7, CHR 0xA4, CHR 0xBA, CHR 0xEF, CHR 0xBC, CHR 0x9A, CHR 0xE6, CHR 0xA0,
              CHR 0xB9, CHR 0xE6, CHR 0x93, CHR 0x9A, CHR 0xE6, CHR 0x96, CHR 0xB9, CHR 0xE6, CHR 0xB3,
              CHR 0x95, CHR 0xE4, CHR 0xB8, CHR 0x80, CHR 0xE7, CHR 0x9A, CHR 0x84, CHR 0xE6, CHR 0xAD,
              CHR 0xA5, CHR 0xE9, CHR 0xA9, CHR 0x9F] @ '' 6'' @ [CHR 0xEF, CHR 0xBC, CHR 0x8C, CHR 0xE8,
              CHR 0xAB, CHR 0x8B, CHR 0xE6, CHR 0xB7, CHR 0xBB, CHR 0xE5, CHR 0x8A, CHR 0xA0] @ '' H'' @
              [CHR 0xE2, CHR 0x81, CHR 0xBA] @ '' ('' @ [CHR 0xE9, CHR 0x85, CHR 0xB8, CHR 0xE6, CHR 0x80,
              CHR 0xA7, CHR 0xE4, CHR 0xBB, CHR 0x8B, CHR 0xE8, CHR 0xB3, CHR 0xAA] @ '') '' @ [CHR 0xE4,
              CHR 0xBE, CHR 0x86, CHR 0xE5, CHR 0xB9, CHR 0xB3, CHR 0xE8, CHR 0xA1, CHR 0xA1, CHR 0xE9,
              CHR 0x9B, CHR 0xBB, CHR 0xE8, CHR 0x8D, CHR 0xB7, CHR 0xE3, CHR 0x80, CHR 0x82]
         else
            [CHR 0x0A, CHR 0x0A, CHR 0xF0, CHR 0x9F, CHR 0x92, CHR 0xA1] @
              '' Hint: According to Method 1 Step 6, add H'' @ [CHR 0xE2, CHR 0x81, CHR 0xBA] @
              '' (in acidic medium) to balance the charges.'')
      else [])"

definition simplestRatioMsg :: "Language \<Rightarrow> string" where
  "simplestRatioMsg lang =
     (if lang = ZH then
            [CHR 0xE5, CHR 0x8E, CHR 0x9F, CHR 0xE5, CHR 0xAD, CHR 0x90, CHR 0xE8, CHR 0x88, CHR 0x87,
              CHR 0xE9, CHR 0x9B, CHR 0xBB, CHR 0xE8, CHR 0x8D, CHR 0xB7, CHR 0xE5, CHR 0xB7, CHR 0xB2,
              CHR 0xE5, CHR 0xB9, CHR 0xB3, CHR 0xE8, CHR 0xA1, CHR 0xA1, CHR 0xEF, CHR 0xBC, CHR 0x8C,
              CHR 0xE4, CHR 0xBD, CHR 0x86, CHR 0xE8, CHR 0xAB, CHR 0x8B, CHR 0xE4, CHR 0xBD, CHR 0xBF,
              CHR 0xE7, CHR 0x94, CHR 0xA8, CHR 0xE6, CHR 0x9C, CHR 0x80, CHR 0xE7, CHR 0xB0, CHR 0xA1,
              CHR 0xE6, CHR 0x95, CHR 0xB4, CHR 0xE6, CHR 0x95, CHR 0xB8, CHR 0xE6, CHR 0xAF, CHR 0x94,
              CHR 0xE3, CHR 0x80, CHR 0x82]
      else
            ''Balanced, but please use simplest whole number ratios.'')"

text \<open>\<open>`${el} (L:${left}, R:${right})`\<close>\<close>

definition unbalancedText :: "detail \<Rightarrow> string" where
  "unbalancedText d = element d @ '' (L:'' @ showInt (left d) @ '', R:'' @ showInt (right d) @ '')''"

text \<open>
  \<open>unbalancedElementsList.find(el => el !== 'O' && el !== 'H')\<close> followed by
  \<open>if (nonOH)\<close>: \<open>undefined\<close> and the empty string are both falsy.
\<close>

definition findNonOH :: "string list \<Rightarrow> string option" where
  "findNonOH els =
     (case find (\<lambda>el. el \<noteq> ''O'' \<and> el \<noteq> ''H'') els of
        None \<Rightarrow> None
      | Some el \<Rightarrow> if el = [] then None else Some el)"

definition halfAdvice :: "Language \<Rightarrow> string list \<Rightarrow> string" where
  "halfAdvice lang els =
     (case findNonOH els of
        Some nonOH \<Rightarrow>
          (if lang = ZH then
            [CHR 0xF0, CHR 0x9F, CHR 0x92, CHR 0xA1] @ '' '' @ [CHR 0xE6, CHR 0x8F, CHR 0x90, CHR 0xE7,
              CHR 0xA4, CHR 0xBA, CHR 0xEF, CHR 0xBC, CHR 0x9A, CHR 0xE6, CHR 0xA0, CHR 0xB9, CHR 0xE6,
              CHR 0x93, CHR 0x9A, CHR 0xE6, CHR 0xAD, CHR 0xA5, CHR 0xE9, CHR 0xA9, CHR 0x9F] @ '' (a)(i)''
              @ [CHR 0xEF, CHR 0xBC, CHR 0x8C, CHR 0xE8, CHR 0xAB, CHR 0x8B, CHR 0xE5, CHR 0x85, CHR 0x88,
              CHR 0xE5, CHR 0xB9, CHR 0xB3, CHR 0xE8, CHR 0xA1, CHR 0xA1] @ '' '' @ nonOH @ '' '' @
              [CHR 0xE5, CHR 0x8E, CHR 0x9F, CHR 0xE5, CHR 0xAD, CHR 0x90, CHR 0xE3, CHR 0x80, CHR 0x82]
           else
            [CHR 0xF0, CHR 0x9F, CHR 0x92, CHR 0xA1] @ '' Hint: According to Step (a)(i), balance '' @
      nonOH @ '' atoms first.'')
      | None \<Rightarrow>
          if ''O'' \<in> set els then
            (if lang = ZH then
            [CHR 0xF0, CHR 0x9F, CHR 0x92, CHR 0xA1] @ '' '' @ [CHR 0xE6, CHR 0x8F, CHR 0x90, CHR 0xE7,
              CHR 0xA4, CHR 0xBA, CHR 0xEF, CHR 0xBC, CHR 0x9A, CHR 0xE6, CHR 0xA0, CHR 0xB9, CHR 0xE6,
              CHR 0x93, CHR 0x9A, CHR 0xE6, CHR 0xAD, CHR 0xA5, CHR 0xE9, CHR 0xA9, CHR 0x9F] @ '' (a)(ii)''
              @ [CHR 0xEF, CHR 0xBC, CHR 0x8C, CHR 0xE5, CHR 0x85, CHR 0xB6, CHR 0xE4, CHR 0xBB, CHR 0x96,
              CHR 0xE5, CHR 0x8E, CHR 0x9F, CHR 0xE5, CHR 0xAD, CHR 0x90, CHR 0xE5, CHR 0xB7, CHR 0xB2,
              CHR 0xE5, CHR 0xB9, CHR 0xB3, CHR 0xE8, CHR 0xA1, CHR 0xA1, CHR 0xE3, CHR 0x80, CHR 0x82,
              CHR 0xE7, CHR 0x8F, CHR 0xBE, CHR 0xE5, CHR 0x9C, CHR 0xA8, CHR 0xE8, CHR 0xAB, CHR 0x8B,
              CHR 0xE8, CHR 0xAA, CHR 0xBF, CHR 0xE6, CHR 0x95, CHR 0xB4] @ '' H'' @ [CHR 0xE2, CHR 0x82,
              CHR 0x82] @ ''O '' @ [CHR 0xE7, CHR 0x9A, CHR 0x84, CHR 0xE4, CHR 0xBF, CHR 0x82, CHR 0xE6,
              CHR 0x95, CHR 0xB8, CHR 0xE4, CHR 0xBE, CHR 0x86, CHR 0xE5, CHR 0xB9, CHR 0xB3, CHR 0xE8,
              CHR 0xA1, CHR 0xA1, CHR 0xE6, CHR 0xB0, CHR 0xA7] @ ''(O)'' @ [CHR 0xE5, CHR 0x8E, CHR 0x9F,
              CHR 0xE5, CHR 0xAD, CHR 0x90, CHR 0xE3, CHR 0x80, CHR 0x82]
             else
            [CHR 0xF0, CHR 0x9F, CHR 0x92, CHR 0xA1] @
              '' Hint: According to Step (a)(ii), others are balanced. Now adjust H'' @ [CHR 0xE2, CHR 0x82,
              CHR 0x82] @ ''O to balance Oxygen.'')
          else if ''H'' \<in> set els then
            (if lang = ZH then
            [CHR 0xF0, CHR 0x9F, CHR 0x92, CHR 0xA1] @ '' '' @ [CHR 0xE6, CHR 0x8F, CHR 0x90, CHR 0xE7,
              CHR 0xA4, CHR 0xBA, CHR 0xEF, CHR 0xBC, CHR 0x9A, CHR 0xE6, CHR 0xA0, CHR 0xB9, CHR 0xE6,
              CHR 0x93, CHR 0x9A, CHR 0xE6, CHR 0xAD, CHR 0xA5, CHR 0xE9, CHR 0xA9, CHR 0x9F] @
              '' (a)(iii)'' @ [CHR 0xEF, CHR 0xBC, CHR 0x8C, CHR 0xE6, CHR 0xB0, CHR 0xA7, CHR 0xE5,
              CHR 0x8E, CHR 0x9F, CHR 0xE5, CHR 0xAD, CHR 0x90, CHR 0xE5, CHR 0xB7, CHR 0xB2, CHR 0xE5,
              CHR 0xB9, CHR 0xB3, CHR 0xE8, CHR 0xA1, CHR 0xA1, CHR 0xE3, CHR 0x80, CHR 0x82, CHR 0xE7,
              CHR 0x8F, CHR 0xBE, CHR 0xE5, CHR 0x9C, CHR 0xA8, CHR 0xE8, CHR 0xAB, CHR 0x8B, CHR 0xE8,
              CHR 0xAA, CHR 0xBF, CHR 0xE6, CHR 0x95, CHR 0xB4] @ '' H'' @ [CHR 0xE2, CHR 0x81, CHR 0xBA] @
              '' '' @ [CHR 0xE7, CHR 0x9A, CHR 0x84, CHR 0xE4, CHR 0xBF, CHR 0x82, CHR 0xE6, CHR 0x95,
              CHR 0xB8, CHR 0xE4, CHR 0xBE, CHR 0x86, CHR 0xE5, CHR 0xB9, CHR 0xB3, CHR 0xE8, CHR 0xA1,
              CHR 0xA1, CHR 0xE6, CHR 0xB0, CHR 0xAB] @ ''(H)'' @ [CHR 0xE5, CHR 0x8E, CHR 0x9F, CHR 0xE5,
              CHR 0xAD, CHR 0x90, CHR 0xE3, CHR 0x80, CHR 0x82]
             else
            [CHR 0xF0, CHR 0x9F, CHR 0x92, CHR 0xA1] @
              '' Hint: According to Step (a)(iii), Oxygen is balanced. Now adjust H'' @ [CHR 0xE2, CHR 0x81,
              CHR 0xBA] @ '' to balance Hydrogen.'')
          else [])"

definition fullAdvice :: "Language \<Rightarrow> string list \<Rightarrow> string" where
  "fullAdvice lang els =
     (case findNonOH els of
        Some nonOH \<Rightarrow>
          (if lang = ZH then
            [CHR 0xF0, CHR 0x9F, CHR 0x92, CHR 0xA1] @ '' '' @ [CHR 0xE6, CHR 0x8F, CHR 0x90, CHR 0xE7,
              CHR 0xA4, CHR 0xBA, CHR 0xEF, CHR 0xBC, CHR 0x9A, CHR 0xE6, CHR 0xA0, CHR 0xB9, CHR 0xE6,
              CHR 0x93, CHR 0x9A, CHR 0xE6, CHR 0x96, CHR 0xB9, CHR 0xE6, CHR 0xB3, CHR 0x95, CHR 0xE4,
              CHR 0xB8, CHR 0x80, CHR 0xE7, CHR 0x9A, CHR 0x84, CHR 0xE6, CHR 0xAD, CHR 0xA5, CHR 0xE9,
              CHR 0xA9, CHR 0x9F] @ '' 4-5'' @ [CHR 0xEF, CHR 0xBC, CHR 0x8C, CHR 0xE8, CHR 0xAB, CHR 0x8B,
              CHR 0xE5, CHR 0x85, CHR 0x88, CHR 0xE5, CHR 0xB9, CHR 0xB3, CHR 0xE8, CHR 0xA1, CHR 0xA1] @
              '' O '' @ [CHR 0xE5, CHR 0x92, CHR 0x8C] @ '' H '' @ [CHR 0xE4, CHR 0xBB, CHR 0xA5, CHR 0xE5,
              CHR 0xA4, CHR 0x96, CHR 0xE7, CHR 0x9A, CHR 0x84, CHR 0xE5, CHR 0x8E, CHR 0x9F, CHR 0xE5,
              CHR 0xAD, CHR 0x90] @ '' ('' @ nonOH @ '')'' @ [CHR 0xE3, CHR 0x80, CHR 0x82]
           else
            [CHR 0xF0, CHR 0x9F, CHR 0x92, CHR 0xA1] @
              '' Hint: According to Method 1 Steps 4-5, balance atoms other than O and H first ('' @ nonOH @
              '').'')
      | None \<Rightarrow>
          if ''O'' \<in> set els then
            (if lang = ZH then
            [CHR 0xF0, CHR 0x9F, CHR 0x92, CHR 0xA1] @ '' '' @ [CHR 0xE6, CHR 0x8F, CHR 0x90, CHR 0xE7,
              CHR 0xA4, CHR 0xBA, CHR 0xEF, CHR 0xBC, CHR 0x9A, CHR 0xE6, CHR 0xA0, CHR 0xB9, CHR 0xE6,
              CHR 0x93, CHR 0x9A, CHR 0xE6, CHR 0x96, CHR 0xB9, CHR 0xE6, CHR 0xB3, CHR 0x95, CHR 0xE4,
              CHR 0xB8, CHR 0x80, CHR 0xE7, CHR 0x9A, CHR 0x84, CHR 0xE6, CHR 0xAD, CHR 0xA5, CHR 0xE9,
              CHR 0xA9, CHR 0x9F] @ '' 7(a)'' @ [CHR 0xEF, CHR 0xBC, CHR 0x8C, CHR 0xE8, CHR 0xAB, CHR 0x8B,
              CHR 0xE6, CHR 0xB7, CHR 0xBB, CHR 0xE5, CHR 0x8A, CHR 0xA0] @ '' H'' @ [CHR 0xE2, CHR 0x82,
              CHR 0x82] @ ''O '' @ [CHR 0xE4, CHR 0xBB, CHR 0xA5, CHR 0xE5, CHR 0xB9, CHR 0xB3, CHR 0xE8,
              CHR 0xA1, CHR 0xA1] @ '' O '' @ [CHR 0xE5, CHR 0x8E, CHR 0x9F, CHR 0xE5, CHR 0xAD, CHR 0x90,
              CHR 0xE3, CHR 0x80, CHR 0x82]
             else
            [CHR 0xF0, CHR 0x9F, CHR 0x92, CHR 0xA1] @ '' Hint: According to Method 1 Step 7(a), add H'' @
              [CHR 0xE2, CHR 0x82, CHR 0x82] @ ''O to balance O atoms.'')
          else if ''H'' \<in> set els then
            (if lang = ZH then
            [CHR 0xF0, CHR 0x9F, CHR 0x92, CHR 0xA1] @ '' '' @ [CHR 0xE6, CHR 0x8F, CHR 0x90, CHR 0xE7,
              CHR 0xA4, CHR 0xBA, CHR 0xEF, CHR 0xBC, CHR 0x9A, CHR 0xE6, CHR 0xA0, CHR 0xB9, CHR 0xE6,
              CHR 0x93, CHR 0x9A, CHR 0xE6, CHR 0x96, CHR 0xB9, CHR 0xE6, CHR 0xB3, CHR 0x95, CHR 0xE4,
              CHR 0xB8, CHR 0x80, CHR 0xE7, CHR 0x9A, CHR 0x84, CHR 0xE6, CHR 0xAD, CHR 0xA5, CHR 0xE9,
              CHR 0xA9, CHR 0x9F] @ '' 7(b)'' @ [CHR 0xEF, CHR 0xBC, CHR 0x8C, CHR 0xE8, CHR 0xAB, CHR 0x8B,
              CHR 0xE6, CHR 0xAA, CHR 0xA2, CHR 0xE6, CHR 0x9F, CHR 0xA5, CHR 0xE4, CHR 0xB8, CHR 0xA6,
              CHR 0xE7, CHR 0xA2, CHR 0xBA, CHR 0xE4, CHR 0xBF, CHR 0x9D] @ '' H '' @ [CHR 0xE5, CHR 0x8E,
              CHR 0x9F, CHR 0xE5, CHR 0xAD, CHR 0x90, CHR 0xE7, CHR 0x9A, CHR 0x84, CHR 0xE6, CHR 0x95,
              CHR 0xB8, CHR 0xE7, CHR 0x9B, CHR 0xAE, CHR 0xE6, CHR 0x98, CHR 0xAF, CHR 0xE5, CHR 0xB9,
              CHR 0xB3, CHR 0xE8, CHR 0xA1, CHR 0xA1, CHR 0xE7, CHR 0x9A, CHR 0x84, CHR 0xE3, CHR 0x80,
              CHR 0x82]
             else
            [CHR 0xF0, CHR 0x9F, CHR 0x92, CHR 0xA1] @
              '' Hint: According to Method 1 Step 7(b), check to make sure that the number of H atoms is balanced.'')
          else [])"

definition generalAdvice :: "Language \<Rightarrow> string list \<Rightarrow> string" where
  "generalAdvice lang els =
     (case findNonOH els of
        Some nonOH \<Rightarrow>
          (if lang = ZH then
            [CHR 0xF0, CHR 0x9F, CHR 0x92, CHR 0xA1] @ '' '' @ [CHR 0xE6, CHR 0x8F, CHR 0x90, CHR 0xE7,
              CHR 0xA4, CHR 0xBA, CHR 0xEF, CHR 0xBC, CHR 0x9A, CHR 0xE6, CHR 0xA0, CHR 0xB9, CHR 0xE6,
              CHR 0x93, CHR 0x9A, CHR 0xE6, CHR 0xAD, CHR 0xA5, CHR 0xE9, CHR 0xA9, CHR 0x9F] @ '' 3'' @
              [CHR 0xEF, CHR 0xBC, CHR 0x8C, CHR 0xE5, CHR 0xBB, CHR 0xBA, CHR 0xE8, CHR 0xAD, CHR 0xB0,
              CHR 0xE5, CHR 0x85, CHR 0x88, CHR 0xE5, CHR 0xB9, CHR 0xB3, CHR 0xE8, CHR 0xA1, CHR 0xA1,
              CHR 0xE9, CHR 0x87, CHR 0x91, CHR 0xE5, CHR 0xB1, CHR 0xAC, CHR 0xE6, CHR 0x88, CHR 0x96,
              CHR 0xE9, CHR 0x9D, CHR 0x9E, CHR 0xE9, CHR 0x87, CHR 0x91, CHR 0xE5, CHR 0xB1, CHR 0xAC,
              CHR 0xE5, CHR 0x8E, CHR 0x9F, CHR 0xE5, CHR 0xAD, CHR 0x90] @ '' ('' @ nonOH @ '')'' @
              [CHR 0xEF, CHR 0xBC, CHR 0x8C, CHR 0xE6, CHR 0x9C, CHR 0x80, CHR 0xE5, CHR 0xBE, CHR 0x8C,
              CHR 0xE6, CHR 0x89, CHR 0x8D, CHR 0xE8, CHR 0x99, CHR 0x95, CHR 0xE7, CHR 0x90, CHR 0x86] @
              '' H '' @ [CHR 0xE5, CHR 0x92, CHR 0x8C] @ '' O'' @ [CHR 0xE3, CHR 0x80, CHR 0x82]
           else
            [CHR 0xF0, CHR 0x9F, CHR 0x92, CHR 0xA1] @
              '' Hint: According to Step 3, balance metal/non-metal atoms ('' @ nonOH @
              '') first, leaving H and O for last.'')
      | None \<Rightarrow>
          if (\<exists>el\<in>set els. el = ''O'' \<or> el = ''H'') then
            (if lang = ZH then
            [CHR 0xF0, CHR 0x9F, CHR 0x92, CHR 0xA1] @ '' '' @ [CHR 0xE6, CHR 0x8F, CHR 0x90, CHR 0xE7,
              CHR 0xA4, CHR 0xBA, CHR 0xEF, CHR 0xBC, CHR 0x9A, CHR 0xE6, CHR 0xA0, CHR 0xB9, CHR 0xE6,
              CHR 0x93, CHR 0x9A, CHR 0xE6, CHR 0xAD, CHR 0xA5, CHR 0xE9, CHR 0xA9, CHR 0x9F] @ '' 3'' @
              [CHR 0xEF, CHR 0xBC, CHR 0x8C, CHR 0xE5, CHR 0x85, CHR 0xB6, CHR 0xE4, CHR 0xBB, CHR 0x96,
              CHR 0xE5, CHR 0x8E, CHR 0x9F, CHR 0xE5, CHR 0xAD, CHR 0x90, CHR 0xE5, CHR 0xB7, CHR 0xB2,
              CHR 0xE5, CHR 0xB9, CHR 0xB3, CHR 0xE8, CHR 0xA1, CHR 0xA1, CHR 0xE3, CHR 0x80, CHR 0x82,
              CHR 0xE6, CHR 0x9C, CHR 0x80, CHR 0xE5, CHR 0xBE, CHR 0x8C, CHR 0xE8, CHR 0xAB, CHR 0x8B,
              CHR 0xE6, CHR 0xAA, CHR 0xA2, CHR 0xE6, CHR 0x9F, CHR 0xA5, CHR 0xE4, CHR 0xB8, CHR 0xA6,
              CHR 0xE5, CHR 0xB9, CHR 0xB3, CHR 0xE8, CHR 0xA1, CHR 0xA1, CHR 0xE6, CHR 0xB0, CHR 0xAB] @
              ''(H)'' @ [CHR 0xE5, CHR 0x92, CHR 0x8C, CHR 0xE6, CHR 0xB0, CHR 0xA7] @ ''(O)'' @ [CHR 0xE5,
              CHR 0x8E, CHR 0x9F, CHR 0xE5, CHR 0xAD, CHR 0x90, CHR 0xE3, CHR 0x80, CHR 0x82]
             else
            [CHR 0xF0, CHR 0x9F, CHR 0x92, CHR 0xA1] @
              '' Hint: According to Step 3, other atoms are balanced. Finally, check and balance Hydrogen and Oxygen.'')
          else [])"

text \<open>The guide-based hints: the branch on \<open>selectedTopic\<close> of lines 213 to 265.\<close>

definition guideAdvice :: "EquationTopic option \<Rightarrow> Language \<Rightarrow> string list \<Rightarrow> string" where
  "guideAdvice topic lang els =
     (if topic = Some REDOX_HALF then halfAdvice lang els
      else if topic = Some REDOX_FULL then fullAdvice lang els
      else generalAdvice lang els)"

text \<open>The odd/even fallback of lines 268 to 279, for an empty guide-based advice.\<close>

definition oddEvenAdvice :: "Language \<Rightarrow> detail list \<Rightarrow> string" where
  "oddEvenAdvice lang details =
     (case find (\<lambda>d. jsRem (left d) 2 \<noteq> jsRem (right d) 2) details of
        None \<Rightarrow> []
      | Some d \<Rightarrow>
          (let el = element d;
               isLeftOdd = (jsRem (left d) 2 \<noteq> 0);
               side = (if isLeftOdd
                       then (if lang = ZH then [CHR 0xE5, CHR 0xB7, CHR 0xA6, CHR 0xE5, CHR 0x81, CHR 0xB4]
                             else ''left side'')
                       else (if lang = ZH then [CHR 0xE5, CHR 0x8F, CHR 0xB3, CHR 0xE5, CHR 0x81, CHR 0xB4]
                             else ''right side''));
               count = (if isLeftOdd then left d else right d)
           in if lang = ZH then
            [CHR 0xF0, CHR 0x9F, CHR 0x92, CHR 0xA1] @ '' '' @ [CHR 0xE6, CHR 0x8A, CHR 0x80, CHR 0xE5,
              CHR 0xB7, CHR 0xA7, CHR 0xEF, CHR 0xBC, CHR 0x9A] @ el @ '' '' @ [CHR 0xE5, CHR 0x8E,
              CHR 0x9F, CHR 0xE5, CHR 0xAD, CHR 0x90, CHR 0xE7, CHR 0x9A, CHR 0x84, CHR 0xE6, CHR 0x95,
              CHR 0xB8, CHR 0xE9, CHR 0x87, CHR 0x8F, CHR 0xE5, CHR 0x9C, CHR 0xA8] @ side @ [CHR 0xE6,
              CHR 0x98, CHR 0xAF, CHR 0xE5, CHR 0xA5, CHR 0x87, CHR 0xE6, CHR 0x95, CHR 0xB8] @ '' ('' @
              showInt count @ '')'' @ [CHR 0xE3, CHR 0x80, CHR 0x82, CHR 0xE9, CHR 0x80, CHR 0x9A, CHR 0xE5,
              CHR 0xB8, CHR 0xB8, CHR 0xE5, CHR 0xB0, CHR 0x87, CHR 0xE5, CHR 0x90, CHR 0xAB, CHR 0xE6,
              CHR 0x9C, CHR 0x89, CHR 0xE8, CHR 0xA9, CHR 0xB2, CHR 0xE5, CHR 0x8E, CHR 0x9F, CHR 0xE5,
              CHR 0xAD, CHR 0x90, CHR 0xE7, CHR 0x9A, CHR 0x84, CHR 0xE5, CHR 0x8C, CHR 0x96, CHR 0xE5,
              CHR 0x90, CHR 0x88, CHR 0xE7, CHR 0x89, CHR 0xA9, CHR 0xE4, CHR 0xBF, CHR 0x82, CHR 0xE6,
              CHR 0x95, CHR 0xB8, CHR 0xE4, CHR 0xB9, CHR 0x98, CHR 0xE4, CHR 0xBB, CHR 0xA5] @ '' 2 ('' @
              [CHR 0xE8, CHR 0xAE, CHR 0x8A, CHR 0xE6, CHR 0x88, CHR 0x90, CHR 0xE5, CHR 0x81, CHR 0xB6,
              CHR 0xE6, CHR 0x95, CHR 0xB8] @ '') '' @ [CHR 0xE6, CHR 0x9C, CHR 0x83, CHR 0xE6, CHR 0x9C,
              CHR 0x89, CHR 0xE5, CHR 0xB9, CHR 0xAB, CHR 0xE5, CHR 0x8A, CHR 0xA9, CHR 0xE3, CHR 0x80,
              CHR 0x82]
              else
            [CHR 0xF0, CHR 0x9F, CHR 0x92, CHR 0xA1] @ '' Tip: '' @ el @ '' atoms are odd ('' @ showInt
      count @ '') on the '' @ side @ ''. Doubling the coefficient to make it even often helps.''))"

definition unbalancedMsg :: "Language \<Rightarrow> string list \<Rightarrow> string \<Rightarrow> string" where
  "unbalancedMsg lang unbalanced advice =
     (if lang = ZH then
            [CHR 0xE6, CHR 0x9C, CHR 0xAA, CHR 0xE5, CHR 0xB9, CHR 0xB3, CHR 0xE8, CHR 0xA1, CHR 0xA1,
              CHR 0xEF, CHR 0xBC, CHR 0x9A] @ joinWith '', '' unbalanced @ [CHR 0x0A, CHR 0x0A] @ advice
      else
            ''Unbalanced: '' @ joinWith '', '' unbalanced @ [CHR 0x0A, CHR 0x0A] @ advice)"

subsection \<open>Checking an answer\<close>

text \<open>
  \<open>userCoefficient !== r.coefficient\<close> over both sides, with the index of \<open>forEach\<close>.
\<close>

fun sideExact :: "(string \<rightharpoonup> string) \<Rightarrow> string \<Rightarrow> nat \<Rightarrow> EquationComponent list \<Rightarrow> bool" where
  "sideExact uc side idx [] = True"
| "sideExact uc side idx (r # rs) =
     ((\<not> jsNeq (userCoefficient uc side idx) (Num (coefficient r)))
      \<and> sideExact uc side (Suc idx) rs)"

definition isExactMatch :: "(string \<rightharpoonup> string) \<Rightarrow> ChemicalEquation \<Rightarrow> bool" where
  "isExactMatch uc eq = (sideExact uc ''r'' 0 (reactants eq) \<and> sideExact uc ''p'' 0 (products eq))"

text \<open>\<open>equations[currentIndex]\<close>, \<open>undefined\<close> past the end.\<close>

definition currentEquation :: "state \<Rightarrow> ChemicalEquation option" where
  "currentEquation s =
     (if currentIndex s < length (equations s) then Some (equations s ! currentIndex s) else None)"

text \<open>
  The handler returns the state after its \<open>set...\<close> calls; an exception leaves the state
  as it was, since every \<open>set...\<close> call comes after the totals are computed.
\<close>

definition checkAnswer :: "state \<Rightarrow> error + state" where
  "checkAnswer s =
     (case currentEquation s of
        None \<Rightarrow> Inr s
      | Some eq \<Rightarrow>
          (case evaluate (userCoefficients s) eq of
             Inl e \<Rightarrow> Inl e
           | Inr b \<Rightarrow>
               if unbalancedDetails b = [] then
                 (if jsNeq (totalChargeL b) (totalChargeR b) then
                    Inr (s\<lparr>feedback := FeedbackIncorrect,
                           hintMessage :=
                             chargeMsg (language s) (totalChargeL b) (totalChargeR b)
                               @ guideHint (selectedTopic s) (language s)\<rparr>)
                  else if isExactMatch (userCoefficients s) eq then
                    Inr (s\<lparr>feedback := FeedbackCorrect, score := score s + 10, hintMessage := []\<rparr>)
                  else
                    Inr (s\<lparr>feedback := FeedbackIncorrect,
                           hintMessage := simplestRatioMsg (language s)\<rparr>))
               else
                 (let els = map element (unbalancedDetails b);
                      guide = guideAdvice (selectedTopic s) (language s) els;
                      advice = (if guide = [] then oddEvenAdvice (language s) (unbalancedDetails b)
                                else guide)
                  in Inr (s\<lparr>feedback := FeedbackIncorrect,
                            hintMessage :=
                              unbalancedMsg (language s)
                                (map unbalancedText (unbalancedDetails b)) advice\<rparr>))))"

section \<open>Properties used to state the results\<close>

text \<open>The count a frame gives an element: \<open>fr[el] || 0\<close>.\<close>

definition countIn :: "frame \<Rightarrow> string \<Rightarrow> int" where
  "countIn fr el = orZero (map_of fr el)"

text \<open>
  The nesting depth after a run of tokens, starting at depth \<open>d\<close>; \<open>None\<close> when a closing
  parenthesis comes with no group open.
\<close>

fun depthAfter :: "nat \<Rightarrow> token list \<Rightarrow> nat option" where
  "depthAfter d [] = Some d"
| "depthAfter d (Element el m2 # ts) = depthAfter d ts"
| "depthAfter d (OpenParen # ts) = depthAfter (Suc d) ts"
| "depthAfter d (CloseParen m5 # ts) = (case d of 0 \<Rightarrow> None | Suc d' \<Rightarrow> depthAfter d' ts)"

text \<open>A formula whose parentheses match.\<close>

definition balanced :: "string \<Rightarrow> bool" where
  "balanced s = (depthAfter 0 (tokenize (cleanFormula s)) = Some 0)"

fun digitGroups :: "token \<Rightarrow> bool" where
  "digitGroups (Element el m2) = (el \<noteq> [] \<and> (\<forall>c\<in>set m2. isDigit c))"
| "digitGroups OpenParen = True"
| "digitGroups (CloseParen m5) = (\<forall>c\<in>set m5. isDigit c)"

text \<open>A frame as the parser builds it: one entry per symbol, no empty symbol, no negative count.\<close>

definition frameOK :: "frame \<Rightarrow> bool" where
  "frameOK fr = (distinct (map fst fr) \<and> (\<forall>(el, n)\<in>set fr. el \<noteq> [] \<and> 0 \<le> n))"

text \<open>The formula parses: \<open>parseFormula\<close> returns a record.\<close>

definition parses :: "string \<Rightarrow> bool" where
  "parses f = (case parseFormula f of Inr (Some m) \<Rightarrow> True | _ \<Rightarrow> False)"

definition atomsOf :: "string \<Rightarrow> frame" where
  "atomsOf f = (case parseFormula f of Inr (Some m) \<Rightarrow> m | _ \<Rightarrow> [])"


text \<open>
  The coefficient as the specification resolves it: the integer value of the stored text,
  and 1 for an absent or empty entry.
\<close>

definition resolved :: "(string \<rightharpoonup> string) \<Rightarrow> string \<Rightarrow> nat \<Rightarrow> int" where
  "resolved uc side idx =
     (case uc (side @ ''-'' @ showNat idx) of
        None \<Rightarrow> 1
      | Some v \<Rightarrow> if v = [] then 1 else digitsValue v)"

text \<open>
  The totals of the specification for a list of terms given as (coefficient, formula):
  the atoms of one element, and the net charge.
\<close>

definition atomSum :: "(int \<times> string) list \<Rightarrow> string \<Rightarrow> int" where
  "atomSum terms el = (\<Sum>(c, f)\<leftarrow>terms. c * countIn (atomsOf f) el)"

definition chargeSum :: "(int \<times> string) list \<Rightarrow> int" where
  "chargeSum terms = (\<Sum>(c, f)\<leftarrow>terms. c * getCharge f)"

text \<open>The terms of one side under the user's coefficients, and under the reference ones.\<close>

definition userTerms ::
  "(string \<rightharpoonup> string) \<Rightarrow> string \<Rightarrow> EquationComponent list \<Rightarrow> (int \<times> string) list" where
  "userTerms uc side rs = map (\<lambda>(i, r). (resolved uc side i, formula r)) (enumerate 0 rs)"

definition referenceTerms :: "EquationComponent list \<Rightarrow> (int \<times> string) list" where
  "referenceTerms rs = map (\<lambda>r. (coefficient r, formula r)) rs"

definition scaledTerms :: "int \<Rightarrow> EquationComponent list \<Rightarrow> (int \<times> string) list" where
  "scaledTerms k rs = map (\<lambda>r. (k * coefficient r, formula r)) rs"

text \<open>The element symbols the formulas of an equation mention.\<close>

definition symbolsOf :: "ChemicalEquation \<Rightarrow> string list" where
  "symbolsOf eq = concat (map (\<lambda>r. map fst (atomsOf (formula r))) (reactants eq @ products eq))"

text \<open>
  A well-formed equation: it has a term, every formula parses, every reference coefficient
  is positive, and the reference coefficients balance every element other than the
  electron and the net charge.
\<close>

definition wellFormed :: "ChemicalEquation \<Rightarrow> bool" where
  "wellFormed eq =
     (reactants eq @ products eq \<noteq> []
      \<and> (\<forall>r\<in>set (reactants eq @ products eq). parses (formula r) \<and> 0 < coefficient r)
      \<and> (\<forall>el\<in>set (symbolsOf eq). el \<noteq> ''e'' \<longrightarrow>
            atomSum (referenceTerms (reactants eq)) el = atomSum (referenceTerms (products eq)) el)
      \<and> chargeSum (referenceTerms (reactants eq)) = chargeSum (referenceTerms (products eq)))"

text \<open>The user's coefficients are the reference ones multiplied by \<open>k\<close>.\<close>

definition entered :: "(string \<rightharpoonup> string) \<Rightarrow> int \<Rightarrow> ChemicalEquation \<Rightarrow> bool" where
  "entered uc k eq =
     ((\<forall>i<length (reactants eq).
          userCoefficient uc ''r'' i = Num (k * coefficient (reactants eq ! i)))
      \<and> (\<forall>i<length (products eq).
          userCoefficient uc ''p'' i = Num (k * coefficient (products eq ! i))))"




subsection \<open>Example equations and states\<close>

definition component :: "string \<Rightarrow> int \<Rightarrow> EquationComponent" where
  "component f c = \<lparr>formula = f, name = None, coefficient = c\<rparr>"

text \<open>\<open>2 H2 + O2 -> 2 H2O\<close> and the half-equation \<open>Fe^2+ -> Fe^3+ + e^-\<close>.\<close>

definition water :: ChemicalEquation where
  "water =
     \<lparr>reactants = [component ''H2'' 2, component ''O2'' 1],
      products = [component ''H2O'' 2], difficulty = easy\<rparr>"


text \<open>The state of the component on the first question of a loaded list.\<close>

definition loaded :: "Language \<Rightarrow> EquationTopic \<Rightarrow> ChemicalEquation list \<Rightarrow> state" where
  "loaded lang topic eqs =
     \<lparr>language = lang, selectedTopic = Some topic, equations = eqs, currentIndex = 0,
      userCoefficients = Map.empty, score = 0, feedback = FeedbackNone, hintMessage = [],
      showAnswer = False\<rparr>"



section \<open>The parser: invariants of the frames\<close>

lemma tokenize_digitGroups: "\<forall>t\<in>set (tokenize s). digitGroups t"
  by (induction s rule: tokenize.induct) (auto dest: set_takeWhileD)

lemma digitVal_nonneg: "isDigit c \<Longrightarrow> 0 \<le> digitVal c"
  by (auto simp: isDigit_def digitVal_def)

lemma foldl_digits_nonneg:
  "\<forall>c\<in>set ds. isDigit c \<Longrightarrow> 0 \<le> n \<Longrightarrow> 0 \<le> foldl (\<lambda>n c. 10 * n + digitVal c) n ds"
  by (induction ds arbitrary: n) (auto simp: digitVal_nonneg)

lemma countOf_nonneg: "\<forall>c\<in>set ds. isDigit c \<Longrightarrow> 0 \<le> countOf ds"
  unfolding countOf_def digitsValue_def
  by (rule foldl_digits_nonneg) (auto simp: isDigit_def)

lemma countIn_addTo:
  "countIn (addTo fr el n) el' = countIn fr el' + (if el' = el then n else 0)"
  by (simp add: countIn_def addTo_def update_conv' orZero_def)

lemma set_update_subset: "set (AList.update k v al) \<subseteq> insert (k, v) (set al)"
  by (induction al) auto

lemma countIn_nonneg: "frameOK fr \<Longrightarrow> 0 \<le> countIn fr el"
  by (auto simp: frameOK_def countIn_def orZero_def split: option.splits dest!: map_of_SomeD)

lemma frameOK_Nil: "frameOK []"
  by (simp add: frameOK_def)

lemma frameOK_addTo:
  assumes "frameOK fr" and "el \<noteq> []" and "0 \<le> n"
  shows "frameOK (addTo fr el n)"
proof -
  have v: "0 \<le> orZero (map_of fr el) + n"
    using countIn_nonneg[OF assms(1), of el] assms(3) by (simp add: countIn_def)
  show ?thesis
    unfolding frameOK_def addTo_def
  proof (intro conjI ballI)
    show "distinct (map fst (AList.update el (orZero (map_of fr el) + n) fr))"
      using assms(1) by (simp add: frameOK_def distinct_update)
  next
    fix p assume "p \<in> set (AList.update el (orZero (map_of fr el) + n) fr)"
    then have "p = (el, orZero (map_of fr el) + n) \<or> p \<in> set fr"
      using set_update_subset[of el "orZero (map_of fr el) + n" fr] by blast
    then show "case p of (el, n) \<Rightarrow> el \<noteq> [] \<and> 0 \<le> n"
      using assms v by (auto simp: frameOK_def)
  qed
qed

lemma foldl_addTo:
  "distinct (map fst ps) \<Longrightarrow>
   countIn (foldl (\<lambda>cur (el, cnt). addTo cur el (cnt * m)) cur ps) el
     = countIn cur el + countIn ps el * m"
proof (induction ps arbitrary: cur)
  case Nil
  then show ?case by (simp add: countIn_def orZero_def)
next
  case (Cons p ps)
  obtain k v where p: "p = (k, v)" by (cases p)
  have notin: "k \<notin> fst ` set ps" using Cons.prems p by auto
  have "countIn ps k = 0"
    using notin by (simp add: countIn_def orZero_def map_of_eq_None_iff[THEN iffD2])
  then show ?case
    using Cons p by (auto simp: countIn_addTo) (simp_all add: countIn_def orZero_def)
qed

lemma countIn_mergeInto:
  "frameOK popped \<Longrightarrow>
   countIn (mergeInto cur popped m) el = countIn cur el + countIn popped el * m"
  by (simp add: mergeInto_def frameOK_def foldl_addTo)

lemma foldl_addTo_OK:
  "frameOK cur \<Longrightarrow> \<forall>(el, n)\<in>set ps. el \<noteq> [] \<and> 0 \<le> n \<Longrightarrow> 0 \<le> m \<Longrightarrow>
   frameOK (foldl (\<lambda>cur (el, cnt). addTo cur el (cnt * m)) cur ps)"
  by (induction ps arbitrary: cur) (auto simp: frameOK_addTo)

lemma frameOK_mergeInto:
  "frameOK cur \<Longrightarrow> frameOK popped \<Longrightarrow> 0 \<le> m \<Longrightarrow> frameOK (mergeInto cur popped m)"
  unfolding mergeInto_def by (rule foldl_addTo_OK) (auto simp: frameOK_def)

lemma step_OK:
  "step stack t = Inr stack' \<Longrightarrow> digitGroups t \<Longrightarrow> \<forall>fr\<in>set stack. frameOK fr \<Longrightarrow>
   \<forall>fr\<in>set stack'. frameOK fr"
  by (cases t)
     (auto simp: frameOK_addTo frameOK_mergeInto countOf_nonneg frameOK_Nil
           split: list.splits if_splits)

lemma run_OK:
  "run stack ts = Inr stack' \<Longrightarrow> \<forall>t\<in>set ts. digitGroups t \<Longrightarrow> \<forall>fr\<in>set stack. frameOK fr \<Longrightarrow>
   \<forall>fr\<in>set stack'. frameOK fr"
proof (induction ts arbitrary: stack)
  case Nil
  then show ?case by simp
next
  case (Cons t ts)
  then obtain mid where m: "step stack t = Inr mid" "run mid ts = Inr stack'"
    by (auto split: sum.splits)
  have "\<forall>fr\<in>set mid. frameOK fr"
    using step_OK[OF m(1)] Cons.prems by simp
  then show ?case using Cons.IH[OF m(2)] Cons.prems by simp
qed

lemma parseFormula_OK:
  assumes "parseFormula f = Inr (Some m)"
  shows "frameOK m"
proof -
  obtain stack where s: "run [[]] (tokenize (cleanFormula f)) = Inr stack" "stack \<noteq> []"
      "m = last stack"
    using assms by (auto simp: parseFormula_def split: sum.splits if_splits)
  have "\<forall>fr\<in>set stack. frameOK fr"
    using run_OK[OF s(1)] tokenize_digitGroups by (simp add: frameOK_Nil)
  then show ?thesis using s by simp
qed

section \<open>The parser: groups\<close>



lemma run_frames:
  "\<forall>t\<in>set g. digitGroups t \<Longrightarrow> depthAfter (length tops) g = Some d' \<Longrightarrow>
   \<forall>fr\<in>set tops. frameOK fr \<Longrightarrow>
   \<exists>tops' cur' b'.
      run (tops @ cur # below) g = Inr (tops' @ cur' # below)
      \<and> run (tops @ [b]) g = Inr (tops' @ [b'])
      \<and> length tops' = d' \<and> (\<forall>fr\<in>set tops'. frameOK fr)
      \<and> (\<forall>el. countIn cur' el - countIn cur el = countIn b' el - countIn b el)"
proof (induction g arbitrary: tops cur b)
  case Nil
  then show ?case by auto
next
  case (Cons t ts)
  have ts: "\<forall>t\<in>set ts. digitGroups t" using Cons.prems(1) by simp
  show ?case
  proof (cases t)
    case (Element el m2)
    have el: "el \<noteq> []" "0 \<le> countOf m2"
      using Cons.prems(1) Element by (auto simp: countOf_nonneg)
    have d: "depthAfter (length tops) ts = Some d'"
      using Cons.prems(2) Element by simp
    show ?thesis
    proof (cases tops)
      case Nil
      from Cons.IH[OF ts, of "[]" "addTo cur el (countOf m2)" "addTo b el (countOf m2)"] d Nil
      obtain tops' cur' b' where r:
        "run (addTo cur el (countOf m2) # below) ts = Inr (tops' @ cur' # below)"
        "run [addTo b el (countOf m2)] ts = Inr (tops' @ [b'])"
        "length tops' = d'" "\<forall>fr\<in>set tops'. frameOK fr"
        "\<forall>e. countIn cur' e - countIn (addTo cur el (countOf m2)) e
              = countIn b' e - countIn (addTo b el (countOf m2)) e"
        by auto
      have "\<forall>e. countIn cur' e - countIn cur e = countIn b' e - countIn b e"
        using r(5) by (simp add: countIn_addTo)
      then show ?thesis
        using r Nil Element by auto
    next
      case (Cons top rest)
      have ok: "\<forall>fr\<in>set (addTo top el (countOf m2) # rest). frameOK fr"
        using Cons.prems(3) Cons el by (simp add: frameOK_addTo)
      have len: "length (addTo top el (countOf m2) # rest) = length tops"
        using Cons by simp
      from Cons.IH[OF ts, of "addTo top el (countOf m2) # rest" cur b] d ok len
      show ?thesis using Cons Element by auto
    qed
  next
    case OpenParen
    have d: "depthAfter (length ([] # tops)) ts = Some d'"
      using Cons.prems(2) OpenParen by simp
    have ok: "\<forall>fr\<in>set ([] # tops). frameOK fr"
      using Cons.prems(3) by (simp add: frameOK_Nil)
    from Cons.IH[OF ts d ok, of cur b]
    show ?thesis using OpenParen by auto
  next
    case (CloseParen m5)
    have m: "0 \<le> countOf m5"
      using Cons.prems(1) CloseParen by (auto simp: countOf_nonneg)
    obtain top rest where tops: "tops = top # rest"
      using Cons.prems(2) CloseParen by (cases tops) auto
    have d: "depthAfter (length rest) ts = Some d'"
      using Cons.prems(2) CloseParen tops by simp
    have top: "frameOK top" and rest: "\<forall>fr\<in>set rest. frameOK fr"
      using Cons.prems(3) tops by auto
    show ?thesis
    proof (cases rest)
      case Nil
      from Cons.IH[OF ts, of "[]" "mergeInto cur top (countOf m5)" "mergeInto b top (countOf m5)"]
        d Nil
      obtain tops' cur' b' where r:
        "run (mergeInto cur top (countOf m5) # below) ts = Inr (tops' @ cur' # below)"
        "run [mergeInto b top (countOf m5)] ts = Inr (tops' @ [b'])"
        "length tops' = d'" "\<forall>fr\<in>set tops'. frameOK fr"
        "\<forall>e. countIn cur' e - countIn (mergeInto cur top (countOf m5)) e
              = countIn b' e - countIn (mergeInto b top (countOf m5)) e"
        by auto
      have "\<forall>e. countIn cur' e - countIn cur e = countIn b' e - countIn b e"
        using r(5) by (simp add: countIn_mergeInto[OF top])
      then show ?thesis
        using r Nil tops CloseParen by auto
    next
      case (Cons nxt rest')
      have ok: "\<forall>fr\<in>set (mergeInto nxt top (countOf m5) # rest'). frameOK fr"
        using rest Cons top m by (simp add: frameOK_mergeInto)
      have len: "length (mergeInto nxt top (countOf m5) # rest') = length rest"
        using Cons by simp
      from Cons.IH[OF ts, of "mergeInto nxt top (countOf m5) # rest'" cur b] d ok len
      show ?thesis using Cons tops CloseParen by auto
    qed
  qed
qed


lemma run_total:
  "\<forall>t\<in>set g. digitGroups t \<Longrightarrow> depthAfter 0 g = Some d \<Longrightarrow>
   \<exists>tops b. run [[]] g = Inr (tops @ [b])"
  using run_frames[of g "[]" d "[]" "[]" "[]"] by auto




lemma isDigit_plain: "isDigit c \<Longrightarrow> c \<noteq> CHR ''^'' \<and> c \<noteq> CHR ''.''"
  by (auto simp: isDigit_def)






lemma countIn_Nil: "countIn [] el = 0"
  by (simp add: countIn_def orZero_def)








section \<open>The charge extractor\<close>

lemma splitOn_none: "sep \<notin> set s \<Longrightarrow> splitOn sep s = [s]"
  by (induction s) auto

lemma splitOn_first: "sep \<notin> set a \<Longrightarrow> splitOn sep (a @ sep # b) = a # splitOn sep b"
  by (induction a) auto

lemma splitOn_nonempty: "splitOn sep s \<noteq> []"
  by (induction s) (auto split: list.splits)

text \<open>\<open>formula.split('^')[0]\<close> is the text before the first caret, as \<open>cleanFormula\<close> takes it.\<close>

lemma hd_splitOn: "hd (splitOn sep s) = takeWhile (\<lambda>c. c \<noteq> sep) s"
  by (induction s) (auto simp: splitOn_nonempty split: list.splits)

lemma getCharge_no_caret:
  "CHR ''^'' \<notin> set f \<Longrightarrow> getCharge f = (if f = ''e'' \<or> f = ''e-'' then - 1 else 0)"
  by (simp add: getCharge_def splitOn_none)

lemma getCharge_segment:
  assumes "CHR ''^'' \<notin> set base" and "CHR ''^'' \<notin> set seg"
  shows "getCharge (base @ CHR ''^'' # seg)
           = (case chargeMatch seg of
                None \<Rightarrow> 0
              | Some (m1, m2) \<Rightarrow>
                  (if m1 \<noteq> [] then digitsValue m1 else 1) * (if m2 = CHR ''+'' then 1 else - 1))"
  using assms
  by (simp add: getCharge_def splitOn_first splitOn_none Let_def split: option.splits prod.splits)

lemma isDigit_not_sign: "isDigit c \<Longrightarrow> c \<noteq> CHR ''+'' \<and> c \<noteq> CHR ''-''"
  by (auto simp: isDigit_def)

lemma chargeMatch_no_sign:
  "CHR ''+'' \<notin> set seg \<Longrightarrow> CHR ''-'' \<notin> set seg \<Longrightarrow> chargeMatch seg = None"
proof (induction seg)
  case Nil
  then show ?case by simp
next
  case (Cons c cs)
  have "set (dropWhile isDigit (c # cs)) \<subseteq> set (c # cs)"
    by (rule set_dropWhileD[THEN subsetI])
  then have "\<And>s rest. dropWhile isDigit (c # cs) = s # rest \<Longrightarrow> s \<noteq> CHR ''+'' \<and> s \<noteq> CHR ''-''"
    using Cons.prems by (metis list.set_intros(1) subsetD)
  then show ?case
    using Cons by (simp split: list.splits del: dropWhile.simps)
qed

lemma chargeMatch_no_digit:
  "\<forall>c\<in>set seg. \<not> isDigit c \<Longrightarrow>
   find (\<lambda>c. c = CHR ''+'' \<or> c = CHR ''-'') seg = Some s \<Longrightarrow> chargeMatch seg = Some ([], s)"
  by (induction seg) (auto split: if_splits)

lemma chargeMatch_digits_sign:
  assumes "\<forall>c\<in>set ds. isDigit c" and "s = CHR ''+'' \<or> s = CHR ''-''"
  shows "chargeMatch (ds @ s # rest) = Some (ds, s)"
proof -
  have s: "\<not> isDigit s" using assms(2) isDigit_not_sign by blast
  have t: "takeWhile isDigit (ds @ s # rest) = ds"
    using assms(1) s by (simp add: takeWhile_append)
  have d: "dropWhile isDigit (ds @ s # rest) = s # rest"
    using assms(1) s by (simp add: dropWhile_append)
  show ?thesis
  proof (cases ds)
    case Nil
    then show ?thesis using s assms(2) by auto
  next
    case (Cons x xs)
    have "chargeMatch (x # (xs @ s # rest)) = Some (takeWhile isDigit (x # (xs @ s # rest)), s)"
      using d assms(2) unfolding Cons by (simp del: dropWhile.simps takeWhile.simps)
    then show ?thesis using t unfolding Cons by simp
  qed
qed

text \<open>
  C5. The charge of \<open>SO4^2-\<close> is -2, of \<open>Fe^3+\<close> 3, of \<open>Na^+\<close> 1, of \<open>e^-\<close> -1 and
  of \<open>H2O\<close> 0. Without a caret the charge is -1 for \<open>e\<close> and \<open>e-\<close> and 0 otherwise.
  With a charge segment: digits followed by a sign give that number with that sign; a
  segment with a sign and no digit gives 1 with the first sign; a segment with neither
  \<open>+\<close> nor \<open>-\<close> gives 0.
\<close>

theorem getCharge_cases:
  "getCharge ''SO4^2-'' = - 2 \<and> getCharge ''Fe^3+'' = 3 \<and> getCharge ''Na^+'' = 1
   \<and> getCharge ''e^-'' = - 1 \<and> getCharge ''H2O'' = 0
   \<and> (CHR ''^'' \<notin> set f \<longrightarrow> getCharge f = (if f = ''e'' \<or> f = ''e-'' then - 1 else 0))
   \<and> (CHR ''^'' \<notin> set base \<and> ds \<noteq> [] \<and> (\<forall>c\<in>set ds. isDigit c) \<longrightarrow>
        getCharge (base @ ''^'' @ ds @ ''+'') = digitsValue ds
        \<and> getCharge (base @ ''^'' @ ds @ ''-'') = - digitsValue ds)
   \<and> (CHR ''^'' \<notin> set base \<and> CHR ''^'' \<notin> set sg \<and> (\<forall>c\<in>set sg. \<not> isDigit c)
        \<and> find (\<lambda>c. c = CHR ''+'' \<or> c = CHR ''-'') sg = Some s \<longrightarrow>
        getCharge (base @ ''^'' @ sg) = (if s = CHR ''+'' then 1 else - 1))
   \<and> (CHR ''^'' \<notin> set base \<and> CHR ''^'' \<notin> set ns \<and> CHR ''+'' \<notin> set ns \<and> CHR ''-'' \<notin> set ns \<longrightarrow>
        getCharge (base @ ''^'' @ ns) = 0)"
proof -
  have ex: "getCharge ''SO4^2-'' = - 2" "getCharge ''Fe^3+'' = 3" "getCharge ''Na^+'' = 1"
    "getCharge ''e^-'' = - 1" "getCharge ''H2O'' = 0"
    by code_simp+
  have nc: "CHR ''^'' \<notin> set f \<longrightarrow> getCharge f = (if f = ''e'' \<or> f = ''e-'' then - 1 else 0)"
    using getCharge_no_caret by blast
  have dg: "CHR ''^'' \<notin> set base \<and> ds \<noteq> [] \<and> (\<forall>c\<in>set ds. isDigit c) \<longrightarrow>
        getCharge (base @ ''^'' @ ds @ ''+'') = digitsValue ds
        \<and> getCharge (base @ ''^'' @ ds @ ''-'') = - digitsValue ds"
  proof (intro impI; elim conjE)
    assume a: "CHR ''^'' \<notin> set base" "ds \<noteq> []" "\<forall>c\<in>set ds. isDigit c"
    have c: "CHR ''^'' \<notin> set (ds @ [x])" if "x = CHR ''+'' \<or> x = CHR ''-''" for x
    proof -
      have "CHR ''^'' \<notin> set ds" using a(3) isDigit_plain by blast
      then show ?thesis using that by auto
    qed
    have "getCharge (base @ CHR ''^'' # (ds @ [x]))
            = digitsValue ds * (if x = CHR ''+'' then 1 else - 1)"
      if "x = CHR ''+'' \<or> x = CHR ''-''" for x
      unfolding getCharge_segment[OF a(1) c[OF that]]
      using a(2) chargeMatch_digits_sign[OF a(3) that, of "[]"] by simp
    from this[of "CHR ''+''"] this[of "CHR ''-''"]
    show "getCharge (base @ ''^'' @ ds @ ''+'') = digitsValue ds
        \<and> getCharge (base @ ''^'' @ ds @ ''-'') = - digitsValue ds"
      by simp
  qed
  have sg: "CHR ''^'' \<notin> set base \<and> CHR ''^'' \<notin> set sg \<and> (\<forall>c\<in>set sg. \<not> isDigit c)
        \<and> find (\<lambda>c. c = CHR ''+'' \<or> c = CHR ''-'') sg = Some s \<longrightarrow>
        getCharge (base @ ''^'' @ sg) = (if s = CHR ''+'' then 1 else - 1)"
  proof (intro impI; elim conjE)
    assume a: "CHR ''^'' \<notin> set base" "CHR ''^'' \<notin> set sg" "\<forall>c\<in>set sg. \<not> isDigit c"
      "find (\<lambda>c. c = CHR ''+'' \<or> c = CHR ''-'') sg = Some s"
    show "getCharge (base @ ''^'' @ sg) = (if s = CHR ''+'' then 1 else - 1)"
      using getCharge_segment[OF a(1,2)] chargeMatch_no_digit[OF a(3,4)] by simp
  qed
  have ns: "CHR ''^'' \<notin> set base \<and> CHR ''^'' \<notin> set ns \<and> CHR ''+'' \<notin> set ns \<and> CHR ''-'' \<notin> set ns \<longrightarrow>
        getCharge (base @ ''^'' @ ns) = 0"
  proof (intro impI; elim conjE)
    assume a: "CHR ''^'' \<notin> set base" "CHR ''^'' \<notin> set ns" "CHR ''+'' \<notin> set ns" "CHR ''-'' \<notin> set ns"
    show "getCharge (base @ ''^'' @ ns) = 0"
      using getCharge_segment[OF a(1,2)] chargeMatch_no_sign[OF a(3,4)] by simp
  qed
  show ?thesis
    by (intro conjI ex nc dg sg ns)
qed

theorem getCharge_cases_witness:
  "CHR ''^'' \<notin> set ''e-'' \<and> getCharge ''e-'' = - 1
   \<and> CHR ''^'' \<notin> set ''Mn'' \<and> isDigit (CHR ''1'') \<and> isDigit (CHR ''2'')
   \<and> getCharge ''Mn^12+'' = 12 \<and> getCharge ''Mn^12-'' = - 12
   \<and> find (\<lambda>c. c = CHR ''+'' \<or> c = CHR ''-'') ''x-+'' = Some (CHR ''-'')
   \<and> getCharge ''Mn^x-+'' = - 1
   \<and> getCharge ''Mn^x'' = 0"
proof -
  note T = getCharge_cases[of "''e-''" "''Mn''" "''12''" "''x-+''" "CHR ''-''" "''x''"]
  have h: "CHR ''^'' \<notin> set ''e-''" "CHR ''^'' \<notin> set ''Mn''" "''12'' \<noteq> []"
    "\<forall>c\<in>set ''12''. isDigit c" "CHR ''^'' \<notin> set ''x-+''" "\<forall>c\<in>set ''x-+''. \<not> isDigit c"
    "find (\<lambda>c. c = CHR ''+'' \<or> c = CHR ''-'') ''x-+'' = Some (CHR ''-'')"
    "CHR ''^'' \<notin> set ''x''" "CHR ''+'' \<notin> set ''x''" "CHR ''-'' \<notin> set ''x''"
    by (simp_all add: isDigit_def)
  have v: "digitsValue ''12'' = 12"
    by (simp add: digitsValue_def digitVal_def)
  have "getCharge ''e-'' = - 1" using T h by simp
  moreover have "getCharge ''Mn^12+'' = 12 \<and> getCharge ''Mn^12-'' = - 12"
    using T h v by simp
  moreover have "getCharge ''Mn^x-+'' = - 1" using T h by simp
  moreover have "getCharge ''Mn^x'' = 0" using T h by simp
  ultimately show ?thesis using h by simp
qed

text \<open>
  C4. The parser throws on a closing parenthesis that no group matches once the base
  frame holds an atom: \<open>stack.pop()\<close> takes the base frame itself, the guard
  \<open>if (popped)\<close> lets it through, and the merge writes to \<open>undefined\<close>. A leading
  unmatched \<open>)\<close> empties the stack, so the next element throws as well, and a lone
  \<open>)\<close> makes the parser return \<open>undefined\<close>.
\<close>

theorem parseFormula_unmatched_close:
  "parseFormula ''H)'' = Inl TypeError \<and> parseFormula '')H'' = Inl TypeError
   \<and> parseFormula '')'' = Inr None"
  by code_simp

section \<open>The edit boundary and the state a check reads\<close>
















section \<open>The report depends on the equation and the coefficients only\<close>





section \<open>Hints\<close>












lemma checkAnswer_Some:
  assumes "currentEquation s = Some eq" and "evaluate (userCoefficients s) eq = Inr b"
  shows "checkAnswer s =
     Inr (if unbalancedDetails b = [] then
            (if jsNeq (totalChargeL b) (totalChargeR b) then
               s\<lparr>feedback := FeedbackIncorrect,
                 hintMessage := chargeMsg (language s) (totalChargeL b) (totalChargeR b)
                                  @ guideHint (selectedTopic s) (language s)\<rparr>
             else if isExactMatch (userCoefficients s) eq then
               s\<lparr>feedback := FeedbackCorrect, score := score s + 10, hintMessage := []\<rparr>
             else s\<lparr>feedback := FeedbackIncorrect, hintMessage := simplestRatioMsg (language s)\<rparr>)
          else
            s\<lparr>feedback := FeedbackIncorrect,
              hintMessage := unbalancedMsg (language s) (map unbalancedText (unbalancedDetails b))
                (if guideAdvice (selectedTopic s) (language s) (map element (unbalancedDetails b)) = []
                 then oddEvenAdvice (language s) (unbalancedDetails b)
                 else guideAdvice (selectedTopic s) (language s) (map element (unbalancedDetails b)))\<rparr>)"
  by (simp add: checkAnswer_def Let_def assms)




section \<open>Advice for unbalanced atoms\<close>

lemma names_here: "\<exists>pre post. x @ s = pre @ x @ post"
  by (rule exI[of _ "[]"]) simp

lemma names_app: "\<exists>pre post. s = pre @ x @ post \<Longrightarrow> \<exists>pre post. a @ s = pre @ x @ post"
proof -
  assume "\<exists>pre post. s = pre @ x @ post"
  then obtain pre post where "s = pre @ x @ post" by blast
  then have "a @ s = (a @ pre) @ x @ post" by simp
  then show ?thesis by blast
qed

lemma names_first:
  "a \<noteq> [] \<Longrightarrow> \<exists>pre post. s = pre @ x @ post \<Longrightarrow>
   \<exists>pre post. pre \<noteq> [] \<and> a @ s = pre @ x @ post"
proof -
  assume a: "a \<noteq> []" and "\<exists>pre post. s = pre @ x @ post"
  then obtain pre post where "s = pre @ x @ post" by blast
  then have "a @ pre \<noteq> [] \<and> a @ s = (a @ pre) @ x @ post" using a by simp
  then show ?thesis by blast
qed

lemma halfAdvice_names:
  assumes "findNonOH els = Some x"
  shows "\<exists>pre post. pre \<noteq> [] \<and> halfAdvice lang els = pre @ x @ post"
proof (cases lang)
  case ZH
  show ?thesis
    unfolding halfAdvice_def assms option.case ZH
    by (simp only: simp_thms if_True)
       (rule names_first, simp, (rule names_here | rule names_app)+)
next
  case EN
  show ?thesis
    unfolding halfAdvice_def assms option.case EN
    by (simp only: Language.distinct if_False)
       (rule names_first, simp, (rule names_here | rule names_app)+)
qed

lemma fullAdvice_names:
  assumes "findNonOH els = Some x"
  shows "\<exists>pre post. pre \<noteq> [] \<and> fullAdvice lang els = pre @ x @ post"
proof (cases lang)
  case ZH
  show ?thesis
    unfolding fullAdvice_def assms option.case ZH
    by (simp only: simp_thms if_True)
       (rule names_first, simp, (rule names_here | rule names_app)+)
next
  case EN
  show ?thesis
    unfolding fullAdvice_def assms option.case EN
    by (simp only: Language.distinct if_False)
       (rule names_first, simp, (rule names_here | rule names_app)+)
qed

lemma generalAdvice_names:
  assumes "findNonOH els = Some x"
  shows "\<exists>pre post. pre \<noteq> [] \<and> generalAdvice lang els = pre @ x @ post"
proof (cases lang)
  case ZH
  show ?thesis
    unfolding generalAdvice_def assms option.case ZH
    by (simp only: simp_thms if_True)
       (rule names_first, simp, (rule names_here | rule names_app)+)
next
  case EN
  show ?thesis
    unfolding generalAdvice_def assms option.case EN
    by (simp only: Language.distinct if_False)
       (rule names_first, simp, (rule names_here | rule names_app)+)
qed

lemma guideAdvice_names:
  assumes "findNonOH els = Some x"
  shows "\<exists>pre post. pre \<noteq> [] \<and> guideAdvice topic lang els = pre @ x @ post"
  unfolding guideAdvice_def
  using halfAdvice_names[OF assms] fullAdvice_names[OF assms] generalAdvice_names[OF assms]
  by simp

lemma findNonOH_Some:
  assumes "[] \<notin> set els" and "find (\<lambda>el. el \<noteq> ''O'' \<and> el \<noteq> ''H'') els = Some x"
  shows "findNonOH els = Some x"
proof -
  have "x \<in> set els" using assms(2) by (auto simp: find_Some_iff)
  then have "x \<noteq> []" using assms(1) by auto
  then show ?thesis using assms(2) by (simp add: findNonOH_def)
qed

lemma findNonOH_None:
  "find (\<lambda>el. el \<noteq> ''O'' \<and> el \<noteq> ''H'') els = None \<Longrightarrow> findNonOH els = None"
  by (simp add: findNonOH_def)

lemma find_None_OH:
  "find (\<lambda>el. el \<noteq> ''O'' \<and> el \<noteq> ''H'') els = None \<Longrightarrow> \<forall>el\<in>set els. el = ''O'' \<or> el = ''H''"
  by (simp add: find_None_iff)

lemma redox_order:
  assumes "find (\<lambda>el. el \<noteq> ''O'' \<and> el \<noteq> ''H'') els = None"
    and "topic = Some REDOX_HALF \<or> topic = Some REDOX_FULL"
  shows "(''O'' \<in> set els \<longrightarrow> guideAdvice topic lang els = guideAdvice topic lang [''O''])
     \<and> (''O'' \<notin> set els \<and> ''H'' \<in> set els \<longrightarrow>
          guideAdvice topic lang els = guideAdvice topic lang [''H''])
     \<and> guideAdvice topic lang [''O''] \<noteq> guideAdvice topic lang [''H'']"
  using assms(2) findNonOH_None[OF assms(1)]
  by (cases lang) (auto simp: guideAdvice_def halfAdvice_def fullAdvice_def findNonOH_def)

lemma general_generic:
  assumes "find (\<lambda>el. el \<noteq> ''O'' \<and> el \<noteq> ''H'') els = None"
    and "topic \<noteq> Some REDOX_HALF" and "topic \<noteq> Some REDOX_FULL" and "els \<noteq> []"
  shows "guideAdvice topic lang els = guideAdvice topic lang [''O'']
     \<and> guideAdvice topic lang [''O''] = guideAdvice topic lang [''H'']"
proof -
  have "\<exists>el\<in>set els. el = ''O'' \<or> el = ''H''"
    using find_None_OH[OF assms(1)] assms(4) by (cases els) auto
  then show ?thesis
    using assms(2,3) findNonOH_None[OF assms(1)]
    by (simp add: guideAdvice_def generalAdvice_def findNonOH_def)
qed

lemma advice_half_O_EN:
  "\<exists>pre post. guideAdvice (Some REDOX_HALF) EN [''O''] = pre @ ''to balance Oxygen'' @ post"
  by (rule exI[of _ "[CHR 0xF0, CHR 0x9F, CHR 0x92, CHR 0xA1] @ '' Hint: According to Step (a)(ii), others are balanced. Now adjust H'' @ [CHR 0xE2, CHR 0x82, CHR 0x82] @ ''O ''"],
      rule exI[of _ "''.''"])
     (simp add: guideAdvice_def halfAdvice_def fullAdvice_def findNonOH_def)

lemma advice_half_H_EN:
  "\<exists>pre post. guideAdvice (Some REDOX_HALF) EN [''H''] = pre @ ''to balance Hydrogen'' @ post"
  by (rule exI[of _ "[CHR 0xF0, CHR 0x9F, CHR 0x92, CHR 0xA1] @ '' Hint: According to Step (a)(iii), Oxygen is balanced. Now adjust H'' @ [CHR 0xE2, CHR 0x81, CHR 0xBA] @ '' ''"],
      rule exI[of _ "''.''"])
     (simp add: guideAdvice_def halfAdvice_def fullAdvice_def findNonOH_def)

lemma advice_full_O_EN:
  "\<exists>pre post. guideAdvice (Some REDOX_FULL) EN [''O''] = pre @ ''to balance O atoms'' @ post"
  by (rule exI[of _ "[CHR 0xF0, CHR 0x9F, CHR 0x92, CHR 0xA1] @ '' Hint: According to Method 1 Step 7(a), add H'' @ [CHR 0xE2, CHR 0x82, CHR 0x82] @ ''O ''"],
      rule exI[of _ "''.''"])
     (simp add: guideAdvice_def halfAdvice_def fullAdvice_def findNonOH_def)

lemma advice_full_H_EN:
  "\<exists>pre post. guideAdvice (Some REDOX_FULL) EN [''H''] = pre @ ''the number of H atoms'' @ post"
  by (rule exI[of _ "[CHR 0xF0, CHR 0x9F, CHR 0x92, CHR 0xA1] @ '' Hint: According to Method 1 Step 7(b), check to make sure that ''"],
      rule exI[of _ "'' is balanced.''"])
     (simp add: guideAdvice_def halfAdvice_def fullAdvice_def findNonOH_def)

lemma advice_general_EN:
  "guideAdvice (Some METALS) EN [''H'']
     = [CHR 0xF0, CHR 0x9F, CHR 0x92, CHR 0xA1] @ '' Hint: According to Step 3, other atoms are balanced. Finally, check and balance Hydrogen and Oxygen.''"
  by (simp add: guideAdvice_def generalAdvice_def findNonOH_def)

text \<open>
  C7, as the code has it. For every topic: when some unbalanced element is neither O nor
  H, the advice names the first such element. Otherwise, in the topics \<open>REDOX_HALF\<close> and
  \<open>REDOX_FULL\<close> the advice is the one for oxygen when O is unbalanced and the one for
  hydrogen when only H is, and the two differ; in every other topic the advice is a
  single note on hydrogen and oxygen, the same whichever of the two is unbalanced.
\<close>

theorem atom_advice_priority:
  "([] \<notin> set els \<and> find (\<lambda>el. el \<noteq> ''O'' \<and> el \<noteq> ''H'') els = Some x \<longrightarrow>
      (\<exists>pre post. pre \<noteq> [] \<and> guideAdvice topic lang els = pre @ x @ post))
   \<and> (find (\<lambda>el. el \<noteq> ''O'' \<and> el \<noteq> ''H'') rs = None
        \<and> (rt = Some REDOX_HALF \<or> rt = Some REDOX_FULL) \<longrightarrow>
      (''O'' \<in> set rs \<longrightarrow> guideAdvice rt lang rs = guideAdvice rt lang [''O''])
      \<and> (''O'' \<notin> set rs \<and> ''H'' \<in> set rs \<longrightarrow> guideAdvice rt lang rs = guideAdvice rt lang [''H''])
      \<and> guideAdvice rt lang [''O''] \<noteq> guideAdvice rt lang [''H''])
   \<and> (find (\<lambda>el. el \<noteq> ''O'' \<and> el \<noteq> ''H'') gs = None
        \<and> gt \<noteq> Some REDOX_HALF \<and> gt \<noteq> Some REDOX_FULL \<and> gs \<noteq> [] \<longrightarrow>
      guideAdvice gt lang gs = guideAdvice gt lang [''O'']
      \<and> guideAdvice gt lang [''O''] = guideAdvice gt lang [''H''])
   \<and> (\<exists>pre post. guideAdvice (Some REDOX_HALF) EN [''O''] = pre @ ''to balance Oxygen'' @ post)
   \<and> (\<exists>pre post. guideAdvice (Some REDOX_HALF) EN [''H''] = pre @ ''to balance Hydrogen'' @ post)
   \<and> (\<exists>pre post. guideAdvice (Some REDOX_FULL) EN [''O''] = pre @ ''to balance O atoms'' @ post)
   \<and> (\<exists>pre post. guideAdvice (Some REDOX_FULL) EN [''H''] = pre @ ''the number of H atoms'' @ post)"
proof -
  have a: "[] \<notin> set els \<and> find (\<lambda>el. el \<noteq> ''O'' \<and> el \<noteq> ''H'') els = Some x \<longrightarrow>
      (\<exists>pre post. pre \<noteq> [] \<and> guideAdvice topic lang els = pre @ x @ post)"
  proof (intro impI; elim conjE)
    assume "[] \<notin> set els" "find (\<lambda>el. el \<noteq> ''O'' \<and> el \<noteq> ''H'') els = Some x"
    from guideAdvice_names[OF findNonOH_Some[OF this]]
    show "\<exists>pre post. pre \<noteq> [] \<and> guideAdvice topic lang els = pre @ x @ post" .
  qed
  have b: "find (\<lambda>el. el \<noteq> ''O'' \<and> el \<noteq> ''H'') rs = None
        \<and> (rt = Some REDOX_HALF \<or> rt = Some REDOX_FULL) \<longrightarrow>
      (''O'' \<in> set rs \<longrightarrow> guideAdvice rt lang rs = guideAdvice rt lang [''O''])
      \<and> (''O'' \<notin> set rs \<and> ''H'' \<in> set rs \<longrightarrow> guideAdvice rt lang rs = guideAdvice rt lang [''H''])
      \<and> guideAdvice rt lang [''O''] \<noteq> guideAdvice rt lang [''H'']"
  proof (intro impI; elim conjE)
    assume "find (\<lambda>el. el \<noteq> ''O'' \<and> el \<noteq> ''H'') rs = None"
      "rt = Some REDOX_HALF \<or> rt = Some REDOX_FULL"
    from redox_order[OF this]
    show "(''O'' \<in> set rs \<longrightarrow> guideAdvice rt lang rs = guideAdvice rt lang [''O''])
      \<and> (''O'' \<notin> set rs \<and> ''H'' \<in> set rs \<longrightarrow> guideAdvice rt lang rs = guideAdvice rt lang [''H''])
      \<and> guideAdvice rt lang [''O''] \<noteq> guideAdvice rt lang [''H'']" .
  qed
  have c: "find (\<lambda>el. el \<noteq> ''O'' \<and> el \<noteq> ''H'') gs = None
        \<and> gt \<noteq> Some REDOX_HALF \<and> gt \<noteq> Some REDOX_FULL \<and> gs \<noteq> [] \<longrightarrow>
      guideAdvice gt lang gs = guideAdvice gt lang [''O'']
      \<and> guideAdvice gt lang [''O''] = guideAdvice gt lang [''H'']"
  proof (intro impI; elim conjE)
    assume "find (\<lambda>el. el \<noteq> ''O'' \<and> el \<noteq> ''H'') gs = None"
      "gt \<noteq> Some REDOX_HALF" "gt \<noteq> Some REDOX_FULL" "gs \<noteq> []"
    from general_generic[OF this]
    show "guideAdvice gt lang gs = guideAdvice gt lang [''O'']
      \<and> guideAdvice gt lang [''O''] = guideAdvice gt lang [''H'']" .
  qed
  show ?thesis
    by (intro conjI a b c advice_half_O_EN advice_half_H_EN advice_full_O_EN advice_full_H_EN)
qed

theorem atom_advice_priority_witness:
  "find (\<lambda>el. el \<noteq> ''O'' \<and> el \<noteq> ''H'') [''H'', ''Fe'', ''O'', ''S''] = Some ''Fe''
   \<and> (\<exists>pre post. pre \<noteq> []
          \<and> guideAdvice (Some ACIDS_BASES) ZH [''H'', ''Fe'', ''O'', ''S''] = pre @ ''Fe'' @ post)
   \<and> find (\<lambda>el. el \<noteq> ''O'' \<and> el \<noteq> ''H'') [''H'', ''O''] = None
   \<and> guideAdvice (Some REDOX_FULL) ZH [''H'', ''O''] = guideAdvice (Some REDOX_FULL) ZH [''O'']
   \<and> guideAdvice (Some REDOX_FULL) ZH [''O''] \<noteq> guideAdvice (Some REDOX_FULL) ZH [''H'']
   \<and> guideAdvice None ZH [''H'', ''O''] = guideAdvice None ZH [''O'']
   \<and> guideAdvice None ZH [''O''] = guideAdvice None ZH [''H'']"
proof -
  note T = atom_advice_priority[where els = "[''H'', ''Fe'', ''O'', ''S'']" and x = "''Fe''"
      and topic = "Some ACIDS_BASES" and lang = ZH and rs = "[''H'', ''O'']"
      and rt = "Some REDOX_FULL" and gs = "[''H'', ''O'']" and gt = None]
  have h: "[] \<notin> set [''H'', ''Fe'', ''O'', ''S'']"
    "find (\<lambda>el. el \<noteq> ''O'' \<and> el \<noteq> ''H'') [''H'', ''Fe'', ''O'', ''S''] = Some ''Fe''"
    "find (\<lambda>el. el \<noteq> ''O'' \<and> el \<noteq> ''H'') [''H'', ''O''] = None"
    "''O'' \<in> set [''H'', ''O'']" "[''H'', ''O''] \<noteq> []"
    "None \<noteq> Some REDOX_HALF" "None \<noteq> Some REDOX_FULL"
    by simp_all
  show ?thesis
    using T h by blast
qed

text \<open>
  In the topic \<open>METALS\<close> the advice for an unbalanced H alone is the advice for an
  unbalanced O alone: one note naming both elements.
\<close>

theorem atom_advice_general_counterexample:
  "guideAdvice (Some METALS) EN [''H'']
     = [CHR 0xF0, CHR 0x9F, CHR 0x92, CHR 0xA1]
       @ '' Hint: According to Step 3, other atoms are balanced. ''
       @ ''Finally, check and balance Hydrogen and Oxygen.''
   \<and> guideAdvice (Some METALS) EN [''O''] = guideAdvice (Some METALS) EN [''H'']"
  by (simp add: guideAdvice_def generalAdvice_def findNonOH_def)

section \<open>Atom and charge totals\<close>

lemma addAtoms_Nil: "addAtoms cnts [] coeff = cnts"
  by (simp add: addAtoms_def)

lemma addAtoms_Cons:
  "addAtoms cnts ((el, n) # atoms) coeff =
     addAtoms (if el = ''e'' then cnts
               else AList.update el (jsAdd (Num (jsOrZero (map_of cnts el))) (jsMul (Num n) coeff)) cnts)
       atoms coeff"
  by (simp add: addAtoms_def)

lemma countIn_Cons:
  "countIn ((k, v) # fr) el = (if el = k then v else countIn fr el)"
  by (simp add: countIn_def orZero_def)

lemma countIn_absent: "el \<notin> fst ` set fr \<Longrightarrow> countIn fr el = 0"
  by (simp add: countIn_def orZero_def map_of_eq_None_iff[THEN iffD2])

lemma addAtoms_lookup:
  "distinct (map fst atoms) \<Longrightarrow>
   jsOrZero (map_of (addAtoms cnts atoms (Num c)) el)
     = jsOrZero (map_of cnts el) + (if el = ''e'' then 0 else countIn atoms el * c)"
proof (induction atoms arbitrary: cnts)
  case Nil
  then show ?case by (simp add: addAtoms_Nil countIn_Nil)
next
  case (Cons p atoms)
  obtain k n where p: "p = (k, n)" by (cases p)
  have d: "distinct (map fst atoms)" and k: "k \<notin> fst ` set atoms"
    using Cons.prems p by auto
  note IH = Cons.IH[OF d]
  show ?case
  proof (cases "k = ''e''")
    case True
    then show ?thesis
      unfolding p addAtoms_Cons using IH[of cnts] by (simp add: countIn_Cons)
  next
    case False
    show ?thesis
      unfolding p addAtoms_Cons
      using False IH[of "AList.update k (jsAdd (Num (jsOrZero (map_of cnts k))) (jsMul (Num n) (Num c))) cnts"]
        countIn_absent[OF k]
      by (simp add: countIn_Cons update_conv')
  qed
qed

lemma addAtoms_keys:
  "fst ` set (addAtoms cnts atoms coeff) = fst ` set cnts \<union> (fst ` set atoms - {''e''})"
proof (induction atoms arbitrary: cnts)
  case Nil
  then show ?case by (simp add: addAtoms_Nil)
next
  case (Cons p atoms)
  obtain k n where p: "p = (k, n)" by (cases p)
  show ?case
    unfolding p addAtoms_Cons Cons.IH
    by (auto simp: dom_update)
qed

text \<open>
  One side, with the coefficients the terms resolve to given by \<open>c\<close>: the counts grow by
  the coefficient-weighted atoms of every formula, the electron left out, and the charge
  by the coefficient-weighted charges.
\<close>

lemma sumSide_totals:
  "\<forall>r\<in>set rs. parses (formula r) \<Longrightarrow>
   \<forall>i<length rs. userCoefficient uc side (idx + i) = Num (c (idx + i)) \<Longrightarrow>
   \<exists>cnts'. sumSide uc side idx rs (cnts, Num ch)
        = Inr (cnts', Num (ch + chargeSum (map (\<lambda>(i, r). (c i, formula r)) (enumerate idx rs))))
     \<and> (\<forall>el. jsOrZero (map_of cnts' el) = jsOrZero (map_of cnts el)
            + (if el = ''e'' then 0
               else atomSum (map (\<lambda>(i, r). (c i, formula r)) (enumerate idx rs)) el))
     \<and> fst ` set cnts'
          = fst ` set cnts \<union> ((\<Union>r\<in>set rs. fst ` set (atomsOf (formula r))) - {''e''})"
proof (induction rs arbitrary: idx cnts ch)
  case Nil
  then show ?case by (simp add: chargeSum_def atomSum_def)
next
  case (Cons r rs)
  obtain atoms where a: "parseFormula (formula r) = Inr (Some atoms)"
    using Cons.prems(1) by (auto simp: parses_def split: sum.splits option.splits)
  have at: "atomsOf (formula r) = atoms" using a by (simp add: atomsOf_def)
  have dist: "distinct (map fst atoms)"
    using parseFormula_OK[OF a] by (simp add: frameOK_def)
  have c0: "userCoefficient uc side idx = Num (c idx)"
    using Cons.prems(2)[rule_format, of 0] by simp
  have rest: "\<forall>i<length rs. userCoefficient uc side (Suc idx + i) = Num (c (Suc idx + i))"
  proof (intro allI impI)
    fix i assume "i < length rs"
    then have "Suc i < length (r # rs)" by simp
    from Cons.prems(2)[rule_format, OF this]
    show "userCoefficient uc side (Suc idx + i) = Num (c (Suc idx + i))" by simp
  qed
  have ps: "\<forall>r\<in>set rs. parses (formula r)" using Cons.prems(1) by simp
  from Cons.IH[OF ps rest, of "addAtoms cnts atoms (Num (c idx))" "ch + c idx * getCharge (formula r)"]
  obtain cnts' where r: "sumSide uc side (Suc idx) rs
          (addAtoms cnts atoms (Num (c idx)), Num (ch + c idx * getCharge (formula r)))
        = Inr (cnts', Num (ch + c idx * getCharge (formula r)
              + chargeSum (map (\<lambda>(i, r). (c i, formula r)) (enumerate (Suc idx) rs))))"
    "\<forall>el. jsOrZero (map_of cnts' el) = jsOrZero (map_of (addAtoms cnts atoms (Num (c idx))) el)
            + (if el = ''e'' then 0
               else atomSum (map (\<lambda>(i, r). (c i, formula r)) (enumerate (Suc idx) rs)) el)"
    "fst ` set cnts' = fst ` set (addAtoms cnts atoms (Num (c idx)))
          \<union> ((\<Union>r\<in>set rs. fst ` set (atomsOf (formula r))) - {''e''})"
    by (elim exE conjE) (rule that)
  have s: "sumSide uc side idx (r # rs) (cnts, Num ch)
        = Inr (cnts', Num (ch + chargeSum (map (\<lambda>(i, r). (c i, formula r)) (enumerate idx (r # rs)))))"
    using r(1) by (simp add: a c0 chargeSum_def add.assoc)
  have l: "\<forall>el. jsOrZero (map_of cnts' el) = jsOrZero (map_of cnts el)
            + (if el = ''e'' then 0
               else atomSum (map (\<lambda>(i, r). (c i, formula r)) (enumerate idx (r # rs))) el)"
    using r(2) by (simp add: addAtoms_lookup[OF dist] atomSum_def at mult.commute)
  have k: "fst ` set cnts'
          = fst ` set cnts \<union> ((\<Union>r\<in>set (r # rs). fst ` set (atomsOf (formula r))) - {''e''})"
    unfolding r(3) addAtoms_keys by (auto simp: at)
  show ?case using s l k by blast
qed

lemma sumSide_keys:
  "sumSide uc side idx rs (cnts, ch) = Inr (cnts', ch') \<Longrightarrow>
   fst ` set cnts' \<subseteq> fst ` set cnts \<union> (\<Union>r\<in>set rs. fst ` set (atomsOf (formula r)))"
proof (induction rs arbitrary: idx cnts ch)
  case Nil
  then show ?case by simp
next
  case (Cons r rs)
  from Cons.prems obtain atoms where a: "parseFormula (formula r) = Inr (Some atoms)"
    by (cases "parseFormula (formula r)") (auto simp: Let_def split: option.splits)
  have at: "atomsOf (formula r) = atoms" using a by (simp add: atomsOf_def)
  from Cons.prems have "sumSide uc side (Suc idx) rs
      (addAtoms cnts atoms (userCoefficient uc side idx),
       jsAdd ch (jsMul (userCoefficient uc side idx) (Num (getCharge (formula r)))))
        = Inr (cnts', ch')"
    by (simp add: a Let_def)
  from Cons.IH[OF this] show ?case
    unfolding addAtoms_keys by (auto simp: at)
qed

lemma sumSide_parses:
  "sumSide uc side idx rs (cnts, ch) = Inr res \<Longrightarrow> \<forall>r\<in>set rs. parses (formula r)"
proof (induction rs arbitrary: idx cnts ch)
  case Nil
  then show ?case by simp
next
  case (Cons r rs)
  from Cons.prems obtain atoms where a: "parseFormula (formula r) = Inr (Some atoms)"
    by (cases "parseFormula (formula r)") (auto simp: Let_def split: option.splits)
  from Cons.prems have "sumSide uc side (Suc idx) rs
      (addAtoms cnts atoms (userCoefficient uc side idx),
       jsAdd ch (jsMul (userCoefficient uc side idx) (Num (getCharge (formula r)))))
        = Inr res"
    by (simp add: a Let_def)
  from Cons.IH[OF this] show ?case
    using a by (simp add: parses_def)
qed

lemma atomsOf_keys: "el \<in> fst ` set (atomsOf f) \<Longrightarrow> el \<noteq> []"
proof (cases "parseFormula f")
  case (Inl e)
  assume "el \<in> fst ` set (atomsOf f)"
  then show ?thesis using Inl by (simp add: atomsOf_def)
next
  case (Inr m)
  assume el: "el \<in> fst ` set (atomsOf f)"
  show ?thesis
  proof (cases m)
    case None
    then show ?thesis using el Inr by (simp add: atomsOf_def)
  next
    case (Some fr)
    have "frameOK fr" using parseFormula_OK[of f fr] Inr Some by simp
    moreover have "el \<in> fst ` set fr" using el Inr Some by (simp add: atomsOf_def)
    ultimately show ?thesis unfolding frameOK_def by auto
  qed
qed

lemma set_uniq: "set (uniq seen xs) = set xs - set seen"
  by (induction xs arbitrary: seen) auto

lemma distinct_uniq: "distinct (uniq seen xs)"
  by (induction xs arbitrary: seen) (auto simp: set_uniq)

lemma jsOrZero_absent: "el \<notin> fst ` set cs \<Longrightarrow> jsOrZero (map_of cs el) = 0"
  by (simp add: map_of_eq_None_iff[THEN iffD2])

lemma findUnbalanced_member:
  "d \<in> set (findUnbalanced rc pc) \<Longrightarrow>
   element d \<in> fst ` set rc \<union> fst ` set pc
   \<and> left d = jsOrZero (map_of rc (element d)) \<and> right d = jsOrZero (map_of pc (element d))
   \<and> left d \<noteq> right d"
proof -
  assume "d \<in> set (findUnbalanced rc pc)"
  then obtain el where el: "el \<in> set (uniq [] (map fst rc @ map fst pc))"
    and d: "d \<in> set (if jsOrZero (map_of rc el) \<noteq> jsOrZero (map_of pc el)
                then [\<lparr>element = el, left = jsOrZero (map_of rc el),
                        right = jsOrZero (map_of pc el)\<rparr>] else [])"
    unfolding findUnbalanced_def Let_def by auto
  have "el \<in> fst ` set rc \<union> fst ` set pc"
    using el by (simp add: set_uniq)
  moreover have "jsOrZero (map_of rc el) \<noteq> jsOrZero (map_of pc el)
      \<and> d = \<lparr>element = el, left = jsOrZero (map_of rc el), right = jsOrZero (map_of pc el)\<rparr>"
    using d by (simp split: if_splits)
  ultimately show ?thesis by simp
qed

lemma findUnbalanced_Nil:
  "findUnbalanced rc pc = [] \<longleftrightarrow> (\<forall>el. jsOrZero (map_of rc el) = jsOrZero (map_of pc el))"
proof
  assume e: "findUnbalanced rc pc = []"
  show "\<forall>el. jsOrZero (map_of rc el) = jsOrZero (map_of pc el)"
  proof
    fix el
    show "jsOrZero (map_of rc el) = jsOrZero (map_of pc el)"
    proof (cases "el \<in> fst ` set rc \<union> fst ` set pc")
      case True
      then have "el \<in> set (uniq [] (map fst rc @ map fst pc))" by (simp add: set_uniq)
      then show ?thesis
        using e by (auto simp: findUnbalanced_def Let_def split: if_splits)
    next
      case False
      then show ?thesis by (simp add: jsOrZero_absent)
    qed
  qed
next
  assume "\<forall>el. jsOrZero (map_of rc el) = jsOrZero (map_of pc el)"
  then show "findUnbalanced rc pc = []"
    by (simp add: findUnbalanced_def Let_def)
qed

lemma evaluate_elements:
  assumes "evaluate uc eq = Inr b"
  shows "[] \<notin> set (map element (unbalancedDetails b))"
proof -
  from assms obtain rc cl pc cr where
    l: "sumSide uc ''r'' 0 (reactants eq) ([], Num 0) = Inr (rc, cl)" and
    r: "sumSide uc ''p'' 0 (products eq) ([], Num 0) = Inr (pc, cr)" and
    b: "unbalancedDetails b = findUnbalanced rc pc"
    by (auto simp: evaluate_def split: sum.splits prod.splits)
  have kl: "fst ` set rc \<subseteq> (\<Union>r\<in>set (reactants eq). fst ` set (atomsOf (formula r)))"
    using sumSide_keys[OF l] by simp
  have kr: "fst ` set pc \<subseteq> (\<Union>r\<in>set (products eq). fst ` set (atomsOf (formula r)))"
    using sumSide_keys[OF r] by simp
  have ne: "el \<noteq> []" if "el \<in> fst ` set rc \<union> fst ` set pc" for el
  proof -
    from that kl kr obtain f where "el \<in> fst ` set (atomsOf f)" by blast
    then show ?thesis by (rule atomsOf_keys)
  qed
  show ?thesis
  proof
    assume "[] \<in> set (map element (unbalancedDetails b))"
    then obtain d where "d \<in> set (findUnbalanced rc pc)" "element d = []"
      unfolding b by auto
    then show False
      using findUnbalanced_member[of d rc pc] ne[of "element d"] by simp
  qed
qed

lemma guideAdvice_nonempty:
  assumes "els \<noteq> []" and "[] \<notin> set els"
  shows "guideAdvice topic lang els \<noteq> []"
proof (cases "find (\<lambda>el. el \<noteq> ''O'' \<and> el \<noteq> ''H'') els")
  case (Some x)
  from guideAdvice_names[OF findNonOH_Some[OF assms(2) Some], of topic lang]
  show ?thesis by auto
next
  case None
  have oh: "\<forall>el\<in>set els. el = ''O'' \<or> el = ''H''" by (rule find_None_OH[OF None])
  then have m: "''O'' \<in> set els \<or> ''H'' \<in> set els"
    using assms(1) by (cases els) auto
  have ex: "\<exists>el\<in>set els. el = ''O'' \<or> el = ''H''"
    using m by auto
  show ?thesis
    using m ex findNonOH_None[OF None]
    by (cases lang)
       (auto simp: guideAdvice_def halfAdvice_def fullAdvice_def generalAdvice_def)
qed

text \<open>
  C10. When a check finds unbalanced elements, every one of them is a non-empty symbol
  that is either O, H or neither, so the guide-based advice of the topic is never empty:
  the odd/even fallback is not used, and the hint is the list of unbalanced elements
  followed by the guide-based advice.
\<close>

theorem guide_advice_always:
  "(currentEquation s = Some eq \<and> evaluate (userCoefficients s) eq = Inr b
      \<and> unbalancedDetails b \<noteq> [] \<longrightarrow>
      guideAdvice (selectedTopic s) (language s) (map element (unbalancedDetails b)) \<noteq> []
      \<and> (\<exists>s'. checkAnswer s = Inr s' \<and> feedback s' = FeedbackIncorrect
             \<and> hintMessage s' = unbalancedMsg (language s)
                  (map unbalancedText (unbalancedDetails b))
                  (guideAdvice (selectedTopic s) (language s)
                     (map element (unbalancedDetails b)))))
   \<and> (els \<noteq> [] \<and> [] \<notin> set els \<longrightarrow> guideAdvice topic lang els \<noteq> [])"
proof (intro conjI impI; elim conjE)
  assume a: "currentEquation s = Some eq" "evaluate (userCoefficients s) eq = Inr b"
    "unbalancedDetails b \<noteq> []"
  have ne: "map element (unbalancedDetails b) \<noteq> []" using a(3) by simp
  show g: "guideAdvice (selectedTopic s) (language s) (map element (unbalancedDetails b)) \<noteq> []"
    by (rule guideAdvice_nonempty[OF ne evaluate_elements[OF a(2)]])
  show "\<exists>s'. checkAnswer s = Inr s' \<and> feedback s' = FeedbackIncorrect
             \<and> hintMessage s' = unbalancedMsg (language s)
                  (map unbalancedText (unbalancedDetails b))
                  (guideAdvice (selectedTopic s) (language s)
                     (map element (unbalancedDetails b)))"
    unfolding checkAnswer_Some[OF a(1,2)] using a(3) g by simp
next
  assume "els \<noteq> []" "[] \<notin> set els"
  then show "guideAdvice topic lang els \<noteq> []" by (rule guideAdvice_nonempty)
qed

theorem guide_advice_always_witness:
  "currentEquation (loaded EN METALS [water]) = Some water
   \<and> evaluate (userCoefficients (loaded EN METALS [water])) water
       = Inr \<lparr>rCounts = [(''H'', Num 2), (''O'', Num 2)], pCounts = [(''H'', Num 2), (''O'', Num 1)],
              totalChargeL = Num 0, totalChargeR = Num 0,
              unbalancedDetails = [\<lparr>element = ''O'', left = 2, right = 1\<rparr>]\<rparr>
   \<and> guideAdvice (Some METALS) EN [''O''] \<noteq> []
   \<and> (\<exists>s'. checkAnswer (loaded EN METALS [water]) = Inr s' \<and> feedback s' = FeedbackIncorrect
          \<and> hintMessage s' = ''Unbalanced: O (L:2, R:1)'' @ [CHR 0x0A, CHR 0x0A]
                                 @ guideAdvice (Some METALS) EN [''O''])
   \<and> guideAdvice (Some REDOX_FULL) ZH [''H'', ''Mn''] \<noteq> []"
proof -
  define st where "st = loaded EN METALS [water]"
  define b where "b = \<lparr>rCounts = [(''H'', Num 2), (''O'', Num 2)],
      pCounts = [(''H'', Num 2), (''O'', Num 1)], totalChargeL = Num 0, totalChargeR = Num 0,
      unbalancedDetails = [\<lparr>element = ''O'', left = 2, right = 1\<rparr>]\<rparr>"
  have st: "language st = EN" "selectedTopic st = Some METALS"
    by (simp_all add: st_def loaded_def)
  have ce: "currentEquation st = Some water"
    by (simp add: st_def loaded_def currentEquation_def)
  have ev: "evaluate (userCoefficients st) water = Inr b"
    unfolding st_def b_def by code_simp
  have bb: "unbalancedDetails b \<noteq> []" "map element (unbalancedDetails b) = [''O'']"
    by (simp_all add: b_def)
  have m: "unbalancedMsg EN (map unbalancedText (unbalancedDetails b)) a
             = ''Unbalanced: O (L:2, R:1)'' @ [CHR 0x0A, CHR 0x0A] @ a" for a
    by (simp add: b_def unbalancedMsg_def unbalancedText_def showInt_def showNat.simps)
  note T = guide_advice_always[where s = st and eq = water and b = b
      and els = "[''H'', ''Mn'']" and topic = "Some REDOX_FULL" and lang = ZH]
  have h: "[''H'', ''Mn''] \<noteq> []" "[] \<notin> set [''H'', ''Mn'']"
    by simp_all
  from T ce ev bb(1) have g: "guideAdvice (selectedTopic st) (language st)
        (map element (unbalancedDetails b)) \<noteq> []"
    and "\<exists>s'. checkAnswer st = Inr s' \<and> feedback s' = FeedbackIncorrect
             \<and> hintMessage s' = unbalancedMsg (language st)
                  (map unbalancedText (unbalancedDetails b))
                  (guideAdvice (selectedTopic st) (language st)
                     (map element (unbalancedDetails b)))"
    by blast+
  then obtain s' where s': "checkAnswer st = Inr s'" "feedback s' = FeedbackIncorrect"
    "hintMessage s' = ''Unbalanced: O (L:2, R:1)'' @ [CHR 0x0A, CHR 0x0A]
                                 @ guideAdvice (Some METALS) EN [''O'']"
    unfolding st bb m by blast
  have g2: "guideAdvice (Some REDOX_FULL) ZH [''H'', ''Mn''] \<noteq> []"
    using T h by blast
  show ?thesis
    using ce ev g s' g2 unfolding st bb st_def[symmetric] b_def[symmetric] by blast
qed

end
